theory Spec2Isabelle
  imports Main "HOL-Library.Word"
begin

section \<open>The wrapped AMQP client\<close>

text \<open>
  The package wraps \<^verbatim>\<open>github.com/streadway/amqp\<close>. That library is not part
  of the repository, so its primitives are a parameter of every definition below: a
  record of functions over a broker state \<open>'w\<close>. Each primitive takes the state it
  is called in and returns its result with the state afterwards, so two calls of the
  same primitive may answer differently (a connection found open may be closed a moment
  later).

  Handles (\<^verbatim>\<open>*amqp.Connection\<close>, \<^verbatim>\<open>*amqp.Channel\<close>) are addresses;
  a Go pointer that may be nil is an \<open>option\<close>.
\<close>

type_synonym bytes = "8 word list"

type_synonym conn = nat

type_synonym chan = nat

text \<open>\<^verbatim>\<open>amqp.Table\<close>: the values are opaque to this package, which only hands
  the table on.\<close>

type_synonym Table = "(string \<times> string) list"

text \<open>
  Go's \<^verbatim>\<open>error\<close> values. \<^verbatim>\<open>fmt.Errorf\<close> without a wrapping verb and
  \<^verbatim>\<open>errors.New\<close> both build a message-only error; every other error value
  (an \<^verbatim>\<open>*amqp.Error\<close>, a network error) is a \<open>LibraryError\<close>.
\<close>

datatype error = errors_New string | LibraryError string

text \<open>\<^verbatim>\<open>amqp.Queue\<close>, the answer of a declaration.\<close>

record amqp_Queue =
  Name :: string
  Messages :: int
  Consumers :: int

text \<open>\<^verbatim>\<open>amqp.Publishing\<close>: the source sets the two fields below and leaves
  every other field at its zero value.\<close>

record Publishing =
  Publishing_ContentType :: string
  Publishing_Body :: bytes

text \<open>\<^verbatim>\<open>amqp.Delivery\<close>, one delivered item.\<close>

record Delivery =
  DeliveryTag :: "64 word"
  Delivery_Body :: bytes

record 'w amqp =
  amqp_Dial :: "string \<Rightarrow> 'w \<Rightarrow> (error + conn) \<times> 'w"
  Connection_IsClosed :: "conn \<Rightarrow> 'w \<Rightarrow> bool \<times> 'w"
  Connection_Channel :: "conn \<Rightarrow> 'w \<Rightarrow> (error + chan) \<times> 'w"
  Channel_QueueDeclare ::
    "chan \<Rightarrow> string \<Rightarrow> bool \<Rightarrow> bool \<Rightarrow> bool \<Rightarrow> bool \<Rightarrow> Table \<Rightarrow> 'w \<Rightarrow> (error + amqp_Queue) \<times> 'w"
  Channel_Publish ::
    "chan \<Rightarrow> string \<Rightarrow> string \<Rightarrow> bool \<Rightarrow> bool \<Rightarrow> Publishing \<Rightarrow> 'w \<Rightarrow> error option \<times> 'w"
  Channel_Consume ::
    "chan \<Rightarrow> string \<Rightarrow> string \<Rightarrow> bool \<Rightarrow> bool \<Rightarrow> bool \<Rightarrow> bool \<Rightarrow> Table \<Rightarrow> 'w
      \<Rightarrow> (error + Delivery list) \<times> 'w"

text \<open>
  The consumer feed (\<^verbatim>\<open><-chan amqp.Delivery\<close>) that \<open>Channel_Consume\<close>
  returns is the finite sequence of deliveries it carries before it is closed.
\<close>

section \<open>The data of the package\<close>

record Configuration =
  Host :: string
  RoutingKey :: string
  ContentType :: string
  Exchange :: string
  AutoAcknowledgeMessages :: bool
  Durable :: bool
  DeleteIfUnused :: bool
  Exclusive :: bool
  NoWait :: bool
  NoLocal :: bool
  arguments :: Table

text \<open>\<^verbatim>\<open>type Message struct { *amqp.Delivery }\<close>\<close>

datatype Message = Message Delivery

text \<open>
  A callback \<^verbatim>\<open>func(m *Message)\<close> acts on the caller's own state \<open>'u\<close>.
  A Go function value may be nil, so where the source holds or receives one it is an
  \<open>option\<close>.
\<close>

type_synonym 'u callback = "Message \<Rightarrow> 'u \<Rightarrow> 'u"

text \<open>
  \<^verbatim>\<open>Queue\<close> as \<^verbatim>\<open>src/amqp.go\<close> declares it. The embedded
  \<^verbatim>\<open>*sync.WaitGroup\<close> is nil (\<open>None\<close>) or points to a counter that only this
  Queue holds, so the counter is kept in the field.
  The other source file declares the same struct with one more field, \<open>worker\<close>:
  the record \<open>QueueW\<close> extends this one, and the methods that are the same text in
  both files are defined once, on every extension of \<open>Queue\<close>.
\<close>

record Queue =
  WaitGroup :: "int option"
  Connected :: bool
  connection :: "conn option"
  channel :: "chan option"
  internalQueue :: "amqp_Queue option"
  Config :: "Configuration option"

record 'u QueueW = Queue +
  worker :: "'u callback option"

section \<open>Effects\<close>

text \<open>
  What a run does besides changing the Queue is kept in an environment: the broker
  state, the caller's state that callbacks act on, the background tasks started with
  \<^verbatim>\<open>go\<close>, and the sequence of observable events (each library call with its
  arguments and its answer, each log line, each operation on the WaitGroup, each start
  of a task, each invocation of a callback).
\<close>

datatype event =
    Dial string "error + conn"
  | IsClosed conn bool
  | Channel conn "error + chan"
  | QueueDeclare chan string bool bool bool bool Table "error + amqp_Queue"
  | Publish_call chan string string bool bool Publishing "error option"
  | Consume chan string string bool bool bool bool Table "error + Delivery list"
  | Println string
  | Add int
  | Done
  | Go
  | Callback Message

text \<open>The closure that \<open>ProcessIncomingMessages\<close> starts captures the callback
  and the feed, and nothing else.\<close>

datatype 'u goroutine = Goroutine "'u callback option" "Delivery list"

record ('w, 'u) env =
  world :: 'w
  user :: 'u
  goroutines :: "'u goroutine list"
  events :: "event list"

text \<open>A call returns, or it panics (a nil pointer is dereferenced, the WaitGroup
  counter would become negative).\<close>

datatype 'a outcome = Return 'a | Panic

definition emit :: "event \<Rightarrow> ('w, 'u) env \<Rightarrow> ('w, 'u) env" where
  "emit ev e = e\<lparr>events := events e @ [ev]\<rparr>"

text \<open>The library calls, each recorded with its answer.\<close>

definition call_Dial :: "'w amqp \<Rightarrow> string \<Rightarrow> ('w, 'u) env \<Rightarrow> (error + conn) \<times> ('w, 'u) env" where
  "call_Dial lib host e =
     (case amqp_Dial lib host (world e) of
        (r, w) \<Rightarrow> (r, emit (Dial host r) (e\<lparr>world := w\<rparr>)))"

definition call_IsClosed :: "'w amqp \<Rightarrow> conn \<Rightarrow> ('w, 'u) env \<Rightarrow> bool \<times> ('w, 'u) env" where
  "call_IsClosed lib c e =
     (case Connection_IsClosed lib c (world e) of
        (r, w) \<Rightarrow> (r, emit (IsClosed c r) (e\<lparr>world := w\<rparr>)))"

definition call_Channel :: "'w amqp \<Rightarrow> conn \<Rightarrow> ('w, 'u) env \<Rightarrow> (error + chan) \<times> ('w, 'u) env" where
  "call_Channel lib c e =
     (case Connection_Channel lib c (world e) of
        (r, w) \<Rightarrow> (r, emit (Channel c r) (e\<lparr>world := w\<rparr>)))"

definition call_QueueDeclare ::
  "'w amqp \<Rightarrow> chan \<Rightarrow> string \<Rightarrow> bool \<Rightarrow> bool \<Rightarrow> bool \<Rightarrow> bool \<Rightarrow> Table \<Rightarrow> ('w, 'u) env
    \<Rightarrow> (error + amqp_Queue) \<times> ('w, 'u) env" where
  "call_QueueDeclare lib ch name durable autoDelete exclusive noWait args e =
     (case Channel_QueueDeclare lib ch name durable autoDelete exclusive noWait args (world e) of
        (r, w) \<Rightarrow>
          (r, emit (QueueDeclare ch name durable autoDelete exclusive noWait args r) (e\<lparr>world := w\<rparr>)))"

definition call_Publish ::
  "'w amqp \<Rightarrow> chan \<Rightarrow> string \<Rightarrow> string \<Rightarrow> bool \<Rightarrow> bool \<Rightarrow> Publishing \<Rightarrow> ('w, 'u) env
    \<Rightarrow> error option \<times> ('w, 'u) env" where
  "call_Publish lib ch exchange key mandatory immediate msg e =
     (case Channel_Publish lib ch exchange key mandatory immediate msg (world e) of
        (r, w) \<Rightarrow>
          (r, emit (Publish_call ch exchange key mandatory immediate msg r) (e\<lparr>world := w\<rparr>)))"

definition call_Consume ::
  "'w amqp \<Rightarrow> chan \<Rightarrow> string \<Rightarrow> string \<Rightarrow> bool \<Rightarrow> bool \<Rightarrow> bool \<Rightarrow> bool \<Rightarrow> Table \<Rightarrow> ('w, 'u) env
    \<Rightarrow> (error + Delivery list) \<times> ('w, 'u) env" where
  "call_Consume lib ch queue consumer autoAck exclusive noLocal noWait args e =
     (case Channel_Consume lib ch queue consumer autoAck exclusive noLocal noWait args (world e) of
        (r, w) \<Rightarrow>
          (r, emit (Consume ch queue consumer autoAck exclusive noLocal noWait args r)
                 (e\<lparr>world := w\<rparr>)))"

section \<open>The methods both source files share\<close>

text \<open>
  \<^verbatim>\<open>func (q *Queue) Publish(message []byte, mandatory, immediate bool) error\<close>.
  Past the nil check of the channel, \<^verbatim>\<open>q.Config.Exchange\<close> dereferences the
  configuration pointer.
\<close>

definition Publish ::
  "'w amqp \<Rightarrow> bytes \<Rightarrow> bool \<Rightarrow> bool \<Rightarrow> 'a Queue_scheme \<Rightarrow> ('w, 'u) env
    \<Rightarrow> error option outcome \<times> 'a Queue_scheme \<times> ('w, 'u) env" where
  "Publish lib message mandatory immediate q e =
     (case channel q of
        None \<Rightarrow> (Return (Some (errors_New ''Queue has not been initialized'')), q, e)
      | Some ch \<Rightarrow>
          (case Config q of
             None \<Rightarrow> (Panic, q, e)
           | Some cfg \<Rightarrow>
               (case call_Publish lib ch (Exchange cfg) (RoutingKey cfg) mandatory immediate
                       \<lparr>Publishing_ContentType = ContentType cfg, Publishing_Body = message\<rparr> e of
                  (r, e') \<Rightarrow> (Return r, q, e'))))"

text \<open>
  \<^verbatim>\<open>func (q *Queue) GetConsumer(ConsumerID string) (<-chan amqp.Delivery, error)\<close>
  returns what the library's \<^verbatim>\<open>Consume\<close> returns: an error or a feed.
  There is no nil check: the arguments dereference \<^verbatim>\<open>q.Config\<close>, and the
  library method is entered through \<^verbatim>\<open>q.channel\<close>, which it dereferences.
\<close>

definition GetConsumer ::
  "'w amqp \<Rightarrow> string \<Rightarrow> 'a Queue_scheme \<Rightarrow> ('w, 'u) env
    \<Rightarrow> (error + Delivery list) outcome \<times> 'a Queue_scheme \<times> ('w, 'u) env" where
  "GetConsumer lib ConsumerID q e =
     (case Config q of
        None \<Rightarrow> (Panic, q, e)
      | Some cfg \<Rightarrow>
          (case channel q of
             None \<Rightarrow> (Panic, q, e)
           | Some ch \<Rightarrow>
               (case call_Consume lib ch (RoutingKey cfg) ConsumerID (AutoAcknowledgeMessages cfg)
                       (Exclusive cfg) (NoLocal cfg) (NoWait cfg) (arguments cfg) e of
                  (r, e') \<Rightarrow> (Return r, q, e'))))"

text \<open>
  \<^verbatim>\<open>sync.WaitGroup\<close>: \<^verbatim>\<open>Add\<close> changes the counter by its argument and
  panics when the counter becomes negative; \<^verbatim>\<open>Done\<close> is \<^verbatim>\<open>Add(-1)\<close>.
  Both are reached through the embedded pointer, which they dereference.
\<close>

definition WaitGroup_Add ::
  "int \<Rightarrow> 'a Queue_scheme \<Rightarrow> ('w, 'u) env \<Rightarrow> unit outcome \<times> 'a Queue_scheme \<times> ('w, 'u) env" where
  "WaitGroup_Add delta q e =
     (case WaitGroup q of
        None \<Rightarrow> (Panic, q, e)
      | Some v \<Rightarrow>
          (if v + delta < 0 then (Panic, q\<lparr>WaitGroup := Some (v + delta)\<rparr>, emit (Add delta) e)
           else (Return (), q\<lparr>WaitGroup := Some (v + delta)\<rparr>, emit (Add delta) e)))"

definition WaitGroup_Done ::
  "'a Queue_scheme \<Rightarrow> ('w, 'u) env \<Rightarrow> unit outcome \<times> 'a Queue_scheme \<times> ('w, 'u) env" where
  "WaitGroup_Done q e =
     (case WaitGroup q of
        None \<Rightarrow> (Panic, q, e)
      | Some v \<Rightarrow>
          (if v - 1 < 0 then (Panic, q\<lparr>WaitGroup := Some (v - 1)\<rparr>, emit Done e)
           else (Return (), q\<lparr>WaitGroup := Some (v - 1)\<rparr>, emit Done e)))"

text \<open>\<^verbatim>\<open>go func() { ... }()\<close>: the task is started, and runs on its own.\<close>

definition go :: "'u callback option \<Rightarrow> Delivery list \<Rightarrow> ('w, 'u) env \<Rightarrow> ('w, 'u) env" where
  "go f msgs e = emit Go (e\<lparr>goroutines := goroutines e @ [Goroutine f msgs]\<rparr>)"

text \<open>
  The body of the task, \<^verbatim>\<open>for msg := range msgs { f(&Message{&msg}) }\<close>: one
  iteration for each delivery the feed carries, in the feed's order, and the loop ends
  when the feed is closed. Calling a nil function value panics. The callback is taken
  to return.
\<close>

fun range_msgs ::
  "'u callback option \<Rightarrow> Delivery list \<Rightarrow> ('w, 'u) env \<Rightarrow> unit outcome \<times> ('w, 'u) env" where
  "range_msgs f [] e = (Return (), e)"
| "range_msgs f (msg # msgs) e =
     (case f of
        None \<Rightarrow> (Panic, e)
      | Some cb \<Rightarrow>
          range_msgs f msgs (emit (Callback (Message msg)) (e\<lparr>user := cb (Message msg) (user e)\<rparr>)))"

fun run_goroutine :: "'u goroutine \<Rightarrow> ('w, 'u) env \<Rightarrow> unit outcome \<times> ('w, 'u) env" where
  "run_goroutine (Goroutine f msgs) e = range_msgs f msgs e"

section \<open>The file \<^verbatim>\<open>src/amqp.go\<close>\<close>

definition connect_amqp ::
  "'w amqp \<Rightarrow> string \<Rightarrow> Queue \<Rightarrow> ('w, 'u) env \<Rightarrow> error option outcome \<times> Queue \<times> ('w, 'u) env" where
  "connect_amqp lib host q e =
     (if Connected q \<noteq> False
      then (Return (Some (errors_New ''Error: Queue is already connected'')), q, e)
      else
        (case call_Dial lib host e of
           (Inl err, e') \<Rightarrow> (Return (Some err), q, e')
         | (Inr c, e') \<Rightarrow> (Return None, q\<lparr>connection := Some c, Connected := True\<rparr>, e')))"

definition openChannel_amqp ::
  "'w amqp \<Rightarrow> Queue \<Rightarrow> ('w, 'u) env \<Rightarrow> error option outcome \<times> Queue \<times> ('w, 'u) env" where
  "openChannel_amqp lib q e =
     (case connection q of
        None \<Rightarrow> (Return (Some (errors_New ''No connection to queue'')), q, e)
      | Some c \<Rightarrow>
          (case call_Channel lib c e of
             (Inl err, e') \<Rightarrow> (Return (Some err), q, e')
           | (Inr ch, e') \<Rightarrow> (Return None, q\<lparr>channel := Some ch\<rparr>, e')))"

text \<open>
  \<^verbatim>\<open>func GetQueue(config *Configuration) (*Queue, error)\<close>. The Queue is built
  with a fresh WaitGroup (counter 0); \<^verbatim>\<open>config.Host\<close> dereferences the argument.
  After \<open>openChannel\<close> has returned nil the channel handle is set; the declaration
  is entered through it.
\<close>

definition GetQueue_amqp ::
  "'w amqp \<Rightarrow> Configuration option \<Rightarrow> ('w, 'u) env
    \<Rightarrow> (Queue option \<times> error option) outcome \<times> ('w, 'u) env" where
  "GetQueue_amqp lib config e =
     (let q = \<lparr>WaitGroup = Some 0, Connected = False, connection = None, channel = None,
                internalQueue = None, Config = None\<rparr>
      in case config of
           None \<Rightarrow> (Panic, e)
         | Some cfg \<Rightarrow>
             (case connect_amqp lib (Host cfg) q e of
                (Panic, q1, e1) \<Rightarrow> (Panic, e1)
              | (Return (Some err), q1, e1) \<Rightarrow> (Return (None, Some err), e1)
              | (Return None, q1, e1) \<Rightarrow>
                  (case openChannel_amqp lib q1 e1 of
                     (Panic, q2, e2) \<Rightarrow> (Panic, e2)
                   | (Return (Some err), q2, e2) \<Rightarrow> (Return (None, Some err), e2)
                   | (Return None, q2, e2) \<Rightarrow>
                       (case channel q2 of
                          None \<Rightarrow> (Panic, e2)
                        | Some ch \<Rightarrow>
                            (case call_QueueDeclare lib ch (RoutingKey cfg) (Durable cfg)
                                    (DeleteIfUnused cfg) (Exclusive cfg) (NoWait cfg) (arguments cfg) e2 of
                               (Inl err, e3) \<Rightarrow> (Return (None, Some err), e3)
                             | (Inr iq, e3) \<Rightarrow>
                                 (Return (Some (q2\<lparr>internalQueue := Some iq, Config := Some cfg\<rparr>), None),
                                  e3))))))"

definition ProcessIncomingMessages_amqp ::
  "'w amqp \<Rightarrow> string \<Rightarrow> 'u callback option \<Rightarrow> Queue \<Rightarrow> ('w, 'u) env
    \<Rightarrow> error option outcome \<times> Queue \<times> ('w, 'u) env" where
  "ProcessIncomingMessages_amqp lib ConsumerID f q e =
     (case GetConsumer lib ConsumerID q e of
        (Panic, q1, e1) \<Rightarrow> (Panic, q1, e1)
      | (Return (Inl err), q1, e1) \<Rightarrow> (Return (Some err), q1, e1)
      | (Return (Inr msgs), q1, e1) \<Rightarrow>
          (case WaitGroup_Add 1 q1 e1 of
             (Panic, q2, e2) \<Rightarrow> (Panic, q2, e2)
           | (Return u, q2, e2) \<Rightarrow> (Return None, q2, go f msgs e2)))"

section \<open>The other source file\<close>

definition connect ::
  "'w amqp \<Rightarrow> string \<Rightarrow> 'u QueueW \<Rightarrow> ('w, 'u) env \<Rightarrow> error option outcome \<times> 'u QueueW \<times> ('w, 'u) env" where
  "connect lib host q e =
     (case call_Dial lib host e of
        (Inl err, e') \<Rightarrow> (Return (Some err), q, e')
      | (Inr c, e') \<Rightarrow> (Return None, q\<lparr>connection := Some c, Connected := True\<rparr>, e'))"

text \<open>\<^verbatim>\<open>q.connection == nil || q.connection.IsClosed()\<close>: the library is asked
  only when the handle is not nil.\<close>

definition openChannel ::
  "'w amqp \<Rightarrow> 'u QueueW \<Rightarrow> ('w, 'u) env \<Rightarrow> error option outcome \<times> 'u QueueW \<times> ('w, 'u) env" where
  "openChannel lib q e =
     (case connection q of
        None \<Rightarrow> (Return (Some (errors_New ''No connection to queue'')), q, e)
      | Some c \<Rightarrow>
          (case call_IsClosed lib c e of
             (closed, e0) \<Rightarrow>
               (if closed then (Return (Some (errors_New ''No connection to queue'')), q, e0)
                else
                  (case call_Channel lib c e0 of
                     (Inl err, e') \<Rightarrow> (Return (Some err), q, e')
                   | (Inr ch, e') \<Rightarrow> (Return None, q\<lparr>channel := Some ch\<rparr>, e')))))"

definition GetQueue ::
  "'w amqp \<Rightarrow> Configuration option \<Rightarrow> ('w, 'u) env
    \<Rightarrow> ('u QueueW option \<times> error option) outcome \<times> ('w, 'u) env" where
  "GetQueue lib config e =
     (let q = \<lparr>WaitGroup = Some 0, Connected = False, connection = None, channel = None,
                internalQueue = None, Config = None, worker = None\<rparr>
      in case config of
           None \<Rightarrow> (Panic, e)
         | Some cfg \<Rightarrow>
             (case connect lib (Host cfg) q e of
                (Panic, q1, e1) \<Rightarrow> (Panic, e1)
              | (Return (Some err), q1, e1) \<Rightarrow> (Return (None, Some err), e1)
              | (Return None, q1, e1) \<Rightarrow>
                  (case openChannel lib q1 e1 of
                     (Panic, q2, e2) \<Rightarrow> (Panic, e2)
                   | (Return (Some err), q2, e2) \<Rightarrow> (Return (None, Some err), e2)
                   | (Return None, q2, e2) \<Rightarrow>
                       (case channel q2 of
                          None \<Rightarrow> (Panic, e2)
                        | Some ch \<Rightarrow>
                            (case call_QueueDeclare lib ch (RoutingKey cfg) (Durable cfg)
                                    (DeleteIfUnused cfg) (Exclusive cfg) (NoWait cfg) (arguments cfg) e2 of
                               (Inl err, e3) \<Rightarrow> (Return (None, Some err), e3)
                             | (Inr iq, e3) \<Rightarrow>
                                 (Return (Some (q2\<lparr>internalQueue := Some iq, Config := Some cfg\<rparr>), None),
                                  e3))))))"

definition ProcessIncomingMessages ::
  "'w amqp \<Rightarrow> string \<Rightarrow> 'u callback option \<Rightarrow> 'u QueueW \<Rightarrow> ('w, 'u) env
    \<Rightarrow> error option outcome \<times> 'u QueueW \<times> ('w, 'u) env" where
  "ProcessIncomingMessages lib ConsumerID f q e =
     (case GetConsumer lib ConsumerID q e of
        (Panic, q1, e1) \<Rightarrow> (Panic, q1, e1)
      | (Return (Inl err), q1, e1) \<Rightarrow> (Return (Some err), q1, e1)
      | (Return (Inr msgs), q1, e1) \<Rightarrow>
          (case WaitGroup_Add 1 (q1\<lparr>worker := f\<rparr>) e1 of
             (Panic, q2, e2) \<Rightarrow> (Panic, q2, e2)
           | (Return u, q2, e2) \<Rightarrow> (Return None, q2, go f msgs e2)))"

text \<open>
  \<^verbatim>\<open>func (q *Queue) Recover() error\<close>, in two parts. This is the second:
  the body from \<^verbatim>\<open>err = q.openChannel()\<close> to the end. After \<open>openChannel\<close> has
  returned nil the declaration is entered through the channel handle, and its arguments
  read \<^verbatim>\<open>q.Config\<close>. \<^verbatim>\<open>q.Done()\<close> is called when \<^verbatim>\<open>q.worker\<close> is
  not nil.
\<close>

definition Recover_reopen ::
  "'w amqp \<Rightarrow> 'u QueueW \<Rightarrow> ('w, 'u) env \<Rightarrow> error option outcome \<times> 'u QueueW \<times> ('w, 'u) env" where
  "Recover_reopen lib q e =
     (case openChannel lib q e of
        (Panic, q2, e2) \<Rightarrow> (Panic, q2, e2)
      | (Return (Some err), q2, e2) \<Rightarrow>
          (Return (Some err), q2, emit (Println ''Error reopening channel'') e2)
      | (Return None, q2, e2) \<Rightarrow>
          (case channel q2 of
             None \<Rightarrow> (Panic, q2, e2)
           | Some ch \<Rightarrow>
               (case Config q2 of
                  None \<Rightarrow> (Panic, q2, e2)
                | Some cfg \<Rightarrow>
                    (case call_QueueDeclare lib ch (RoutingKey cfg) (Durable cfg)
                            (DeleteIfUnused cfg) (Exclusive cfg) (NoWait cfg) (arguments cfg) e2 of
                       (Inl err, e3) \<Rightarrow>
                         (Return (Some err), q2, emit (Println ''Error declaring queue'') e3)
                     | (Inr iq, e3) \<Rightarrow>
                         (let q3 = q2\<lparr>internalQueue := Some iq\<rparr>
                          in case worker q3 of
                               None \<Rightarrow> (Return None, q3, e3)
                             | Some f \<Rightarrow>
                                 (case WaitGroup_Done q3 e3 of
                                    (Panic, q4, e4) \<Rightarrow> (Panic, q4, e4)
                                  | (Return u, q4, e4) \<Rightarrow> (Return None, q4, e4)))))))"

text \<open>
  The first part, and the whole: the test \<^verbatim>\<open>!q.connection.IsClosed()\<close> calls
  the library through \<^verbatim>\<open>q.connection\<close> with no nil check, and the branch taken
  when the answer is false logs a line, reads \<^verbatim>\<open>q.Config.Host\<close> and connects.
  When that left an error, it is logged and returned; otherwise the second part runs.
\<close>

definition Recover ::
  "'w amqp \<Rightarrow> 'u QueueW \<Rightarrow> ('w, 'u) env \<Rightarrow> error option outcome \<times> 'u QueueW \<times> ('w, 'u) env" where
  "Recover lib q e =
     (case connection q of
        None \<Rightarrow> (Panic, q, e)
      | Some c \<Rightarrow>
          (case call_IsClosed lib c e of
             (closed, e0) \<Rightarrow>
               (case (if \<not> closed
                      then (case Config q of
                              None \<Rightarrow> (Panic, q, emit (Println ''Connection was closed'') e0)
                            | Some cfg \<Rightarrow>
                                connect lib (Host cfg) q (emit (Println ''Connection was closed'') e0))
                      else (Return None, q, e0)) of
                  (Panic, q1, e1) \<Rightarrow> (Panic, q1, e1)
                | (Return (Some err), q1, e1) \<Rightarrow>
                    (Return (Some err), q1, emit (Println ''Error establishing connection'') e1)
                | (Return None, q1, e1) \<Rightarrow> Recover_reopen lib q1 e1)))"

section \<open>Reading the event sequence\<close>

text \<open>The events of a run that started in \<open>e\<close> and ended in \<open>e'\<close>.\<close>

definition since :: "('w, 'u) env \<Rightarrow> ('w, 'u) env \<Rightarrow> event list" where
  "since e e' = drop (length (events e)) (events e')"

text \<open>Which events are calls of the library.\<close>

fun is_library_call :: "event \<Rightarrow> bool" where
  "is_library_call (Println line) = False"
| "is_library_call (Add delta) = False"
| "is_library_call Done = False"
| "is_library_call Go = False"
| "is_library_call (Callback m) = False"
| "is_library_call ev = True"

fun is_Dial :: "event \<Rightarrow> bool" where
  "is_Dial (Dial host r) = True"
| "is_Dial ev = False"

text \<open>The error a library call answered with, if it answered with one.\<close>

fun library_error :: "event \<Rightarrow> error option" where
  "library_error (Dial host (Inl err)) = Some err"
| "library_error (Channel c (Inl err)) = Some err"
| "library_error (QueueDeclare ch name durable autoDelete exclusive noWait args (Inl err)) = Some err"
| "library_error (Publish_call ch exchange key mandatory immediate msg r) = r"
| "library_error (Consume ch queue consumer autoAck exclusive noLocal noWait args (Inl err)) = Some err"
| "library_error ev = None"

text \<open>The error of the latest library call in a sequence of events: \<open>None\<close> when
  no library call was made or the latest one succeeded.\<close>

definition last_library_error :: "event list \<Rightarrow> error option" where
  "last_library_error evs =
     (case filter is_library_call (rev evs) of [] \<Rightarrow> None | ev # rest \<Rightarrow> library_error ev)"

text \<open>The latest library call in a sequence of events, if there is one.\<close>

definition last_library_call :: "event list \<Rightarrow> event option" where
  "last_library_call evs =
     (case filter is_library_call (rev evs) of [] \<Rightarrow> None | ev # rest \<Rightarrow> Some ev)"

text \<open>
  Whether a sequence of events is what the library really did: started in the broker
  state \<open>w\<close>, every library call in the sequence, made in its turn with the recorded
  arguments, gets the recorded answer from the library. The result is then the broker
  state after the last call; it is \<open>None\<close> as soon as one recorded answer is not
  the library's. Events that are no library calls leave the broker as it is.
\<close>

fun replay :: "'w amqp \<Rightarrow> event list \<Rightarrow> 'w \<Rightarrow> 'w option" where
  "replay lib [] w = Some w"
| "replay lib (Dial host r # evs) w =
     (case amqp_Dial lib host w of
        (r', w') \<Rightarrow> if r' = r then replay lib evs w' else None)"
| "replay lib (IsClosed c r # evs) w =
     (case Connection_IsClosed lib c w of
        (r', w') \<Rightarrow> if r' = r then replay lib evs w' else None)"
| "replay lib (Channel c r # evs) w =
     (case Connection_Channel lib c w of
        (r', w') \<Rightarrow> if r' = r then replay lib evs w' else None)"
| "replay lib (QueueDeclare ch name durable autoDelete exclusive noWait args r # evs) w =
     (case Channel_QueueDeclare lib ch name durable autoDelete exclusive noWait args w of
        (r', w') \<Rightarrow> if r' = r then replay lib evs w' else None)"
| "replay lib (Publish_call ch exchange key mandatory immediate msg r # evs) w =
     (case Channel_Publish lib ch exchange key mandatory immediate msg w of
        (r', w') \<Rightarrow> if r' = r then replay lib evs w' else None)"
| "replay lib (Consume ch queue consumer autoAck exclusive noLocal noWait args r # evs) w =
     (case Channel_Consume lib ch queue consumer autoAck exclusive noLocal noWait args w of
        (r', w') \<Rightarrow> if r' = r then replay lib evs w' else None)"
| "replay lib (Println line # evs) w = replay lib evs w"
| "replay lib (Add delta # evs) w = replay lib evs w"
| "replay lib (Done # evs) w = replay lib evs w"
| "replay lib (Go # evs) w = replay lib evs w"
| "replay lib (Callback m # evs) w = replay lib evs w"

section \<open>A broker double\<close>

text \<open>
  A small broker to run the package against: it accepts a dial while it is reachable,
  hands out fresh handles, knows which connections it has closed, can be told to refuse
  channels, declarations or consumers, and carries the deliveries a consumer will be
  fed.
\<close>

record broker =
  reachable :: bool
  channels_ok :: bool
  declare_ok :: bool
  consume_ok :: bool
  closed :: "conn list"
  fresh :: nat
  feed :: "Delivery list"

definition fake_amqp :: "broker amqp" where
  "fake_amqp =
     \<lparr>amqp_Dial = (\<lambda>host b.
        if reachable b then (Inr (fresh b), b\<lparr>fresh := Suc (fresh b)\<rparr>)
        else (Inl (LibraryError ''dial tcp: connection refused''), b)),
      Connection_IsClosed = (\<lambda>c b. (c \<in> set (closed b), b)),
      Connection_Channel = (\<lambda>c b.
        if channels_ok b \<and> c \<notin> set (closed b) then (Inr (fresh b), b\<lparr>fresh := Suc (fresh b)\<rparr>)
        else (Inl (LibraryError ''channel/connection is not open''), b)),
      Channel_QueueDeclare = (\<lambda>ch name durable autoDelete exclusive noWait args b.
        if declare_ok b then (Inr \<lparr>Name = name, Messages = 0, Consumers = 0\<rparr>, b)
        else (Inl (LibraryError ''PRECONDITION_FAILED''), b)),
      Channel_Publish = (\<lambda>ch exchange key mandatory immediate msg b. (None, b)),
      Channel_Consume = (\<lambda>ch queue consumer autoAck exclusive noLocal noWait args b.
        if consume_ok b then (Inr (feed b), b)
        else (Inl (LibraryError ''NOT_FOUND''), b))\<rparr>"

definition delivery1 :: Delivery where
  "delivery1 = \<lparr>DeliveryTag = 1, Delivery_Body = [104, 105]\<rparr>"

definition delivery2 :: Delivery where
  "delivery2 = \<lparr>DeliveryTag = 2, Delivery_Body = [33]\<rparr>"

definition up :: broker where
  "up = \<lparr>reachable = True, channels_ok = True, declare_ok = True, consume_ok = True,
          closed = [], fresh = 0, feed = [delivery1, delivery2]\<rparr>"

text \<open>The broker that cannot be dialled, the broker that closes its first connection
  at once, the brokers that refuse channels and declarations, the broker as it is once
  a Queue has been constructed against \<open>up\<close>, that broker after it has closed the
  Queue's connection, and that broker when it refuses consumers.\<close>

definition unreachable :: broker where
  "unreachable = up\<lparr>reachable := False\<rparr>"

definition slamming :: broker where
  "slamming = up\<lparr>closed := [0]\<rparr>"

definition no_channels :: broker where
  "no_channels = up\<lparr>channels_ok := False\<rparr>"

definition no_declare :: broker where
  "no_declare = up\<lparr>declare_ok := False\<rparr>"

definition serving :: broker where
  "serving = up\<lparr>fresh := 2\<rparr>"

definition dropped :: broker where
  "dropped = up\<lparr>fresh := 2, closed := [0]\<rparr>"

definition deaf :: broker where
  "deaf = up\<lparr>fresh := 2, consume_ok := False\<rparr>"

definition jobs :: Configuration where
  "jobs = \<lparr>Host = ''amqp://localhost:5672/'', RoutingKey = ''jobs'', ContentType = ''text/plain'',
            Exchange = ''work'', AutoAcknowledgeMessages = True, Durable = True,
            DeleteIfUnused = False, Exclusive = False, NoWait = False, NoLocal = False,
            arguments = []\<rparr>"

text \<open>The caller's state in the closed instances is the list of message bodies its
  callback has seen, latest last.\<close>

definition start :: "broker \<Rightarrow> (broker, bytes list) env" where
  "start b = \<lparr>world = b, user = [], goroutines = [], events = []\<rparr>"

definition remember :: "bytes list callback" where
  "remember m u = (case m of Message d \<Rightarrow> u @ [Delivery_Body d])"

text \<open>The zero value \<^verbatim>\<open>Queue{}\<close>: a Queue that no constructor has built.\<close>

definition zero_Queue :: Queue where
  "zero_Queue = \<lparr>WaitGroup = None, Connected = False, connection = None, channel = None,
                  internalQueue = None, Config = None\<rparr>"

text \<open>The Queues that the two constructors return against the double \<open>up\<close>.\<close>

definition built_amqp :: Queue where
  "built_amqp = \<lparr>WaitGroup = Some 0, Connected = True, connection = Some 0, channel = Some 1,
                  internalQueue = Some \<lparr>Name = ''jobs'', Messages = 0, Consumers = 0\<rparr>,
                  Config = Some jobs\<rparr>"

definition built :: "bytes list QueueW" where
  "built = \<lparr>WaitGroup = Some 0, Connected = True, connection = Some 0, channel = Some 1,
             internalQueue = Some \<lparr>Name = ''jobs'', Messages = 0, Consumers = 0\<rparr>,
             Config = Some jobs, worker = None\<rparr>"

section \<open>Properties\<close>

lemmas call_defs = call_Dial_def call_IsClosed_def call_Channel_def call_QueueDeclare_def
  call_Publish_def call_Consume_def emit_def

lemmas case_splits = option.split sum.split prod.split outcome.split

lemmas double_defs = fake_amqp_def up_def unreachable_def slamming_def no_channels_def
  no_declare_def serving_def dropped_def deaf_def
  jobs_def start_def zero_Queue_def built_amqp_def built_def delivery1_def delivery2_def

subsection \<open>The background task\<close>

lemma range_msgs_Some:
  "range_msgs (Some cb) msgs e =
     (Return (),
      e\<lparr>user := foldl (\<lambda>u d. cb (Message d) u) (user e) msgs,
        events := events e @ map (\<lambda>d. Callback (Message d)) msgs\<rparr>)"
  by (induction msgs arbitrary: e) (simp_all add: emit_def)

lemma range_msgs_None: "range_msgs None msgs e = ((if msgs = [] then Return () else Panic), e)"
  by (cases msgs) simp_all

lemma run_goroutine_events:
  "\<exists>called. events (snd (run_goroutine g e)) = events e @ map Callback called"
proof (cases g)
  case (Goroutine f msgs)
  show ?thesis
  proof (cases f)
    case None
    have "events (snd (run_goroutine g e)) = events e @ map Callback []"
      using Goroutine None by (simp add: range_msgs_None)
    then show ?thesis by blast
  next
    case (Some cb)
    have "events (snd (run_goroutine g e)) = events e @ map Callback (map Message msgs)"
      using Goroutine Some by (simp add: range_msgs_Some)
    then show ?thesis by blast
  qed
qed

lemma run_goroutine_no_Done: "Done \<notin> set (since e (snd (run_goroutine g e)))"
proof -
  obtain called where "events (snd (run_goroutine g e)) = events e @ map Callback called"
    using run_goroutine_events by blast
  then show ?thesis by (auto simp: since_def)
qed

subsection \<open>The events of a run\<close>

lemma last_library_error_append:
  "last_library_error evs = Some err \<Longrightarrow> last_library_error (pre @ evs) = Some err"
  by (cases "filter is_library_call (rev evs)") (simp_all add: last_library_error_def)

lemma last_library_error_Cons:
  "last_library_error evs = Some err \<Longrightarrow> last_library_error (ev # evs) = Some err"
  using last_library_error_append [of evs err "[ev]"] by simp

subsection \<open>The second part of Recover\<close>

lemma Recover_reopen_without_worker:
  "worker q = None \<longrightarrow> Recover_reopen lib q e = (r, q', e') \<longrightarrow>
     WaitGroup q' = WaitGroup q \<and> (\<exists>evs. events e' = events e @ evs \<and> Done \<notin> set evs)"
  by (auto simp: Recover_reopen_def openChannel_def call_defs Let_def split: case_splits if_split)

lemma Recover_reopen_with_worker:
  "worker q = Some cb \<longrightarrow> Recover_reopen lib q e = (Return None, q', e') \<longrightarrow>
     (\<exists>n evs. WaitGroup q = Some n \<and> WaitGroup q' = Some (n - 1) \<and>
        events e' = events e @ evs @ [Done])"
  by (auto simp: Recover_reopen_def openChannel_def WaitGroup_Done_def call_defs Let_def
      split: case_splits if_split)

lemma Recover_reopen_no_Dial:
  "Recover_reopen lib q e = (r, q', e') \<longrightarrow>
     (\<exists>evs. events e' = events e @ evs \<and> filter is_Dial evs = [])"
  by (auto simp: Recover_reopen_def openChannel_def WaitGroup_Done_def call_defs Let_def
      split: case_splits if_split)

subsection \<open>Runs against the broker double\<close>

lemma start_simps:
  "world (start b) = b" "user (start b) = []" "goroutines (start b) = []" "events (start b) = []"
  by (simp_all add: start_def)

lemma GetQueue_amqp_unreachable:
  "GetQueue_amqp fake_amqp (Some jobs) (start unreachable) =
     (Return (None, Some (LibraryError ''dial tcp: connection refused'')),
      (start unreachable)
        \<lparr>events := [Dial ''amqp://localhost:5672/''
                      (Inl (LibraryError ''dial tcp: connection refused''))]\<rparr>)"
  by (simp add: GetQueue_amqp_def connect_amqp_def call_defs double_defs)

lemma GetQueue_unreachable:
  "GetQueue fake_amqp (Some jobs) (start unreachable) =
     (Return (None, Some (LibraryError ''dial tcp: connection refused'')),
      (start unreachable)
        \<lparr>events := [Dial ''amqp://localhost:5672/''
                      (Inl (LibraryError ''dial tcp: connection refused''))]\<rparr>)"
  by (simp add: GetQueue_def connect_def call_defs double_defs)

lemma GetQueue_amqp_up:
  "GetQueue_amqp fake_amqp (Some jobs) (start up) =
     (Return (Some built_amqp, None),
      (start serving)
        \<lparr>events := [Dial ''amqp://localhost:5672/'' (Inr 0), Channel 0 (Inr 1),
                    QueueDeclare 1 ''jobs'' True False False False []
                      (Inr \<lparr>Name = ''jobs'', Messages = 0, Consumers = 0\<rparr>)]\<rparr>)"
  by (simp add: GetQueue_amqp_def connect_amqp_def openChannel_amqp_def call_defs double_defs)

lemma GetQueue_up:
  "GetQueue fake_amqp (Some jobs) (start up) =
     (Return (Some built, None),
      (start serving)
        \<lparr>events := [Dial ''amqp://localhost:5672/'' (Inr 0), IsClosed 0 False, Channel 0 (Inr 1),
                    QueueDeclare 1 ''jobs'' True False False False []
                      (Inr \<lparr>Name = ''jobs'', Messages = 0, Consumers = 0\<rparr>)]\<rparr>)"
  by (simp add: GetQueue_def connect_def openChannel_def call_defs double_defs)

lemma Recover_serving:
  "Recover fake_amqp built (start serving) =
     (Return None,
      built\<lparr>connection := Some 2, channel := Some 3\<rparr>,
      (start (serving\<lparr>fresh := 4\<rparr>))
        \<lparr>events := [IsClosed 0 False, Println ''Connection was closed'',
                    Dial ''amqp://localhost:5672/'' (Inr 2), IsClosed 2 False, Channel 2 (Inr 3),
                    QueueDeclare 3 ''jobs'' True False False False []
                      (Inr \<lparr>Name = ''jobs'', Messages = 0, Consumers = 0\<rparr>)]\<rparr>)"
  by (simp add: Recover_def Recover_reopen_def connect_def openChannel_def call_defs double_defs)

lemma Recover_dropped:
  "Recover fake_amqp built (start dropped) =
     (Return (Some (errors_New ''No connection to queue'')),
      built,
      (start dropped)
        \<lparr>events := [IsClosed 0 True, IsClosed 0 True, Println ''Error reopening channel'']\<rparr>)"
  by (simp add: Recover_def Recover_reopen_def connect_def openChannel_def call_defs double_defs)

lemma ProcessIncomingMessages_serving:
  "ProcessIncomingMessages fake_amqp ''c1'' (Some remember) built (start serving) =
     (Return None,
      built\<lparr>WaitGroup := Some 1, worker := Some remember\<rparr>,
      (start serving)
        \<lparr>goroutines := [Goroutine (Some remember) [delivery1, delivery2]],
          events := [Consume 1 ''jobs'' ''c1'' True False False False []
                      (Inr [delivery1, delivery2]), Add 1, Go]\<rparr>)"
  by (simp add: ProcessIncomingMessages_def GetConsumer_def WaitGroup_Add_def go_def call_defs
      fake_amqp_def up_def serving_def jobs_def start_def built_def)

subsection \<open>Publish\<close>

text \<open>
  C2. On a Queue whose channel handle is nil, \<open>Publish\<close> returns the local error
  "Queue has not been initialized", whatever the body and the two flags are, and makes
  no library call: the broker state and the event sequence are what they were, and so
  is the Queue.
\<close>

theorem Publish_not_initialized:
  "channel q = None \<Longrightarrow>
   Publish lib message mandatory immediate q e =
     (Return (Some (errors_New ''Queue has not been initialized'')), q, e)"
  by (simp add: Publish_def)

theorem Publish_not_initialized_witness:
  "channel zero_Queue = None \<and>
   Publish fake_amqp [104, 105] True False zero_Queue (start up) =
     (Return (Some (errors_New ''Queue has not been initialized'')), zero_Queue, start up)"
  using Publish_not_initialized [of zero_Queue fake_amqp "[104, 105]" True False "start up"]
  by (simp add: zero_Queue_def)

text \<open>
  C7. On a Queue with an open channel and its configuration (every Queue that a
  constructor has returned has both, see \<open>GetQueue_configured\<close>), \<open>Publish\<close> makes one
  library call, the publish call on that channel, with the configured exchange and
  routing key, the caller's two flags, and a publishing made of the configured content
  type and the caller's body; it returns what that call returned and leaves the Queue
  as it was.
\<close>

theorem Publish_forwards:
  "channel q = Some ch \<Longrightarrow> Config q = Some cfg \<Longrightarrow>
   Channel_Publish lib ch (Exchange cfg) (RoutingKey cfg) mandatory immediate
     \<lparr>Publishing_ContentType = ContentType cfg, Publishing_Body = message\<rparr> (world e) = (r, w) \<Longrightarrow>
   Publish lib message mandatory immediate q e =
     (Return r, q,
      e\<lparr>world := w,
        events := events e @
          [Publish_call ch (Exchange cfg) (RoutingKey cfg) mandatory immediate
             \<lparr>Publishing_ContentType = ContentType cfg, Publishing_Body = message\<rparr> r]\<rparr>)"
  by (simp add: Publish_def call_Publish_def emit_def)

theorem Publish_forwards_witness:
  "channel built = Some 1 \<and> Config built = Some jobs \<and>
   Channel_Publish fake_amqp 1 (Exchange jobs) (RoutingKey jobs) True False
     \<lparr>Publishing_ContentType = ContentType jobs, Publishing_Body = [104, 105]\<rparr>
     (world (start serving)) = (None, serving) \<and>
   Publish fake_amqp [104, 105] True False built (start serving) =
     (Return None, built,
      (start serving)
        \<lparr>events := [Publish_call 1 ''work'' ''jobs'' True False
                     \<lparr>Publishing_ContentType = ''text/plain'', Publishing_Body = [104, 105]\<rparr>
                     None]\<rparr>)"
  using Publish_forwards [of built 1 jobs fake_amqp True False "[104, 105]" "start serving"
      None serving]
  by (simp add: double_defs)

subsection \<open>GetConsumer\<close>

text \<open>
  C9. \<open>GetConsumer\<close> has no nil check of the channel. On a Queue whose channel
  handle is nil it does not return: there is no error value, neither the local
  "Queue has not been initialized" of \<open>Publish\<close> nor any other, and the run ends in
  a nil dereference before the library has answered. (When the configuration pointer is
  nil too, as in a Queue that was never constructed, the dereference is the read of
  \<^verbatim>\<open>q.Config.RoutingKey\<close>; otherwise it is the library's, entered through the nil
  channel.)
\<close>

theorem GetConsumer_nil_channel:
  "channel q = None \<Longrightarrow> GetConsumer lib ConsumerID q e = (Panic, q, e)"
  by (simp add: GetConsumer_def split: option.split)

theorem GetConsumer_nil_channel_witness:
  "channel zero_Queue = None \<and>
   GetConsumer fake_amqp ''c1'' zero_Queue (start up) = (Panic, zero_Queue, start up) \<and>
   channel (built\<lparr>channel := None\<rparr>) = None \<and>
   GetConsumer fake_amqp ''c1'' (built\<lparr>channel := None\<rparr>) (start serving) =
     (Panic, built\<lparr>channel := None\<rparr>, start serving)"
  using GetConsumer_nil_channel [of zero_Queue fake_amqp "''c1''" "start up"]
    GetConsumer_nil_channel [of "built\<lparr>channel := None\<rparr>" fake_amqp "''c1''" "start serving"]
  by (simp add: zero_Queue_def)

subsection \<open>Construction\<close>

text \<open>
  C3, as it is claimed: whenever \<open>GetQueue\<close> fails at the dial, the channel-open
  or the queue-declare step, the error it returns is the library's. In the second
  source file this fails at the channel-open step. Against a broker that closes the
  connection as soon as it is dialled, \<open>openChannel\<close> finds the connection closed and
  \<open>GetQueue\<close> returns the local error "No connection to queue"; the two library
  calls of the run, which are the library's real answers, both succeeded.
\<close>

theorem GetQueue_closed_at_once:
  "GetQueue fake_amqp (Some jobs) (start slamming) =
     (Return (None, Some (errors_New ''No connection to queue'')),
      (start (slamming\<lparr>fresh := 1\<rparr>))
        \<lparr>events := [Dial ''amqp://localhost:5672/'' (Inr 0), IsClosed 0 True]\<rparr>) \<and>
   replay fake_amqp [Dial ''amqp://localhost:5672/'' (Inr 0), IsClosed 0 True] slamming =
     Some (slamming\<lparr>fresh := 1\<rparr>) \<and>
   map library_error [Dial ''amqp://localhost:5672/'' (Inr 0), IsClosed 0 True] = [None, None]"
  by (simp add: GetQueue_def connect_def openChannel_def call_defs double_defs)

text \<open>
  C3, amended. Whenever \<open>GetQueue\<close> returns an error, the Queue it returns is nil
  and the events of the run are the library's real answers. In \<^verbatim>\<open>src/amqp.go\<close>
  the error is the one the latest library call (the dial, the channel-open or the
  queue declaration) answered with, unchanged. In the other file it is that too, with
  one exception: when the run consists of a successful dial and the library's answer
  that the connection just dialled is closed, no library call has failed and the error
  is the local "No connection to queue".
  Conversely, in both files a dial, a channel-open or a queue declaration that the
  library answers with an error makes \<open>GetQueue\<close> return a nil Queue and that
  error; so construction against a host that cannot be dialled returns the dial error
  and no Queue.
\<close>

theorem GetQueue_failure:
  "(GetQueue_amqp lib config e = (Return (qa, Some erra), ea) \<longrightarrow>
      qa = None \<and> replay lib (since e ea) (world e) = Some (world ea) \<and>
      last_library_error (since e ea) = Some erra) \<and>
   (GetQueue lib config e' = (Return (qw, Some errw), ew) \<longrightarrow>
      qw = None \<and> replay lib (since e' ew) (world e') = Some (world ew) \<and>
      (last_library_error (since e' ew) = Some errw \<or>
       errw = errors_New ''No connection to queue'' \<and>
       (\<exists>cfg c. config = Some cfg \<and>
          since e' ew = [Dial (Host cfg) (Inr c), IsClosed c True]))) \<and>
   (amqp_Dial lib (Host cfg1) (world e1) = (Inl err1, w1) \<longrightarrow>
      fst (GetQueue_amqp lib (Some cfg1) e1) = Return (None, Some err1) \<and>
      fst (GetQueue lib (Some cfg1) e1) = Return (None, Some err1)) \<and>
   (amqp_Dial lib (Host cfg2) (world e2) = (Inr c2, w2) \<longrightarrow>
    Connection_Channel lib c2 w2 = (Inl err2, w2') \<longrightarrow>
      fst (GetQueue_amqp lib (Some cfg2) e2) = Return (None, Some err2)) \<and>
   (amqp_Dial lib (Host cfg3) (world e3) = (Inr c3, w3) \<longrightarrow>
    Connection_Channel lib c3 w3 = (Inr ch3, w3') \<longrightarrow>
    Channel_QueueDeclare lib ch3 (RoutingKey cfg3) (Durable cfg3) (DeleteIfUnused cfg3)
      (Exclusive cfg3) (NoWait cfg3) (arguments cfg3) w3' = (Inl err3, w3'') \<longrightarrow>
      fst (GetQueue_amqp lib (Some cfg3) e3) = Return (None, Some err3)) \<and>
   (amqp_Dial lib (Host cfg4) (world e4) = (Inr c4, w4) \<longrightarrow>
    Connection_IsClosed lib c4 w4 = (True, w4') \<longrightarrow>
      fst (GetQueue lib (Some cfg4) e4) =
        Return (None, Some (errors_New ''No connection to queue''))) \<and>
   (amqp_Dial lib (Host cfg5) (world e5) = (Inr c5, w5) \<longrightarrow>
    Connection_IsClosed lib c5 w5 = (False, w5') \<longrightarrow>
    Connection_Channel lib c5 w5' = (Inl err5, w5'') \<longrightarrow>
      fst (GetQueue lib (Some cfg5) e5) = Return (None, Some err5)) \<and>
   (amqp_Dial lib (Host cfg6) (world e6) = (Inr c6, w6) \<longrightarrow>
    Connection_IsClosed lib c6 w6 = (False, w6') \<longrightarrow>
    Connection_Channel lib c6 w6' = (Inr ch6, w6'') \<longrightarrow>
    Channel_QueueDeclare lib ch6 (RoutingKey cfg6) (Durable cfg6) (DeleteIfUnused cfg6)
      (Exclusive cfg6) (NoWait cfg6) (arguments cfg6) w6'' = (Inl err6, w6''') \<longrightarrow>
      fst (GetQueue lib (Some cfg6) e6) = Return (None, Some err6))"
proof (intro conjI)
  show "GetQueue_amqp lib config e = (Return (qa, Some erra), ea) \<longrightarrow>
      qa = None \<and> replay lib (since e ea) (world e) = Some (world ea) \<and>
      last_library_error (since e ea) = Some erra"
    by (auto simp: GetQueue_amqp_def connect_amqp_def openChannel_amqp_def call_defs since_def
        last_library_error_def split: case_splits)
  show "GetQueue lib config e' = (Return (qw, Some errw), ew) \<longrightarrow>
      qw = None \<and> replay lib (since e' ew) (world e') = Some (world ew) \<and>
      (last_library_error (since e' ew) = Some errw \<or>
       errw = errors_New ''No connection to queue'' \<and>
       (\<exists>cfg c. config = Some cfg \<and>
          since e' ew = [Dial (Host cfg) (Inr c), IsClosed c True]))"
    by (auto simp: GetQueue_def connect_def openChannel_def call_defs since_def
        last_library_error_def last_library_call_def split: case_splits if_split)
  show "amqp_Dial lib (Host cfg1) (world e1) = (Inl err1, w1) \<longrightarrow>
      fst (GetQueue_amqp lib (Some cfg1) e1) = Return (None, Some err1) \<and>
      fst (GetQueue lib (Some cfg1) e1) = Return (None, Some err1)"
    by (simp add: GetQueue_amqp_def GetQueue_def connect_amqp_def connect_def call_defs)
  show "amqp_Dial lib (Host cfg2) (world e2) = (Inr c2, w2) \<longrightarrow>
    Connection_Channel lib c2 w2 = (Inl err2, w2') \<longrightarrow>
      fst (GetQueue_amqp lib (Some cfg2) e2) = Return (None, Some err2)"
    by (simp add: GetQueue_amqp_def connect_amqp_def openChannel_amqp_def call_defs)
  show "amqp_Dial lib (Host cfg3) (world e3) = (Inr c3, w3) \<longrightarrow>
    Connection_Channel lib c3 w3 = (Inr ch3, w3') \<longrightarrow>
    Channel_QueueDeclare lib ch3 (RoutingKey cfg3) (Durable cfg3) (DeleteIfUnused cfg3)
      (Exclusive cfg3) (NoWait cfg3) (arguments cfg3) w3' = (Inl err3, w3'') \<longrightarrow>
      fst (GetQueue_amqp lib (Some cfg3) e3) = Return (None, Some err3)"
    by (simp add: GetQueue_amqp_def connect_amqp_def openChannel_amqp_def call_defs)
  show "amqp_Dial lib (Host cfg4) (world e4) = (Inr c4, w4) \<longrightarrow>
    Connection_IsClosed lib c4 w4 = (True, w4') \<longrightarrow>
      fst (GetQueue lib (Some cfg4) e4) =
        Return (None, Some (errors_New ''No connection to queue''))"
    by (simp add: GetQueue_def connect_def openChannel_def call_defs)
  show "amqp_Dial lib (Host cfg5) (world e5) = (Inr c5, w5) \<longrightarrow>
    Connection_IsClosed lib c5 w5 = (False, w5') \<longrightarrow>
    Connection_Channel lib c5 w5' = (Inl err5, w5'') \<longrightarrow>
      fst (GetQueue lib (Some cfg5) e5) = Return (None, Some err5)"
    by (simp add: GetQueue_def connect_def openChannel_def call_defs)
  show "amqp_Dial lib (Host cfg6) (world e6) = (Inr c6, w6) \<longrightarrow>
    Connection_IsClosed lib c6 w6 = (False, w6') \<longrightarrow>
    Connection_Channel lib c6 w6' = (Inr ch6, w6'') \<longrightarrow>
    Channel_QueueDeclare lib ch6 (RoutingKey cfg6) (Durable cfg6) (DeleteIfUnused cfg6)
      (Exclusive cfg6) (NoWait cfg6) (arguments cfg6) w6'' = (Inl err6, w6''') \<longrightarrow>
      fst (GetQueue lib (Some cfg6) e6) = Return (None, Some err6)"
    by (simp add: GetQueue_def connect_def openChannel_def call_defs)
qed

theorem GetQueue_failure_witness:
  "GetQueue_amqp fake_amqp (Some jobs) (start unreachable) =
     (Return (None, Some (LibraryError ''dial tcp: connection refused'')),
      (start unreachable)
        \<lparr>events := [Dial ''amqp://localhost:5672/''
                      (Inl (LibraryError ''dial tcp: connection refused''))]\<rparr>) \<and>
   GetQueue fake_amqp (Some jobs) (start slamming) =
     (Return (None, Some (errors_New ''No connection to queue'')),
      (start (slamming\<lparr>fresh := 1\<rparr>))
        \<lparr>events := [Dial ''amqp://localhost:5672/'' (Inr 0), IsClosed 0 True]\<rparr>) \<and>
   amqp_Dial fake_amqp (Host jobs) (world (start unreachable)) =
     (Inl (LibraryError ''dial tcp: connection refused''), unreachable) \<and>
   fst (GetQueue_amqp fake_amqp (Some jobs) (start unreachable)) =
     Return (None, Some (LibraryError ''dial tcp: connection refused'')) \<and>
   fst (GetQueue fake_amqp (Some jobs) (start unreachable)) =
     Return (None, Some (LibraryError ''dial tcp: connection refused'')) \<and>
   amqp_Dial fake_amqp (Host jobs) (world (start no_channels)) =
     (Inr 0, no_channels\<lparr>fresh := 1\<rparr>) \<and>
   Connection_Channel fake_amqp 0 (no_channels\<lparr>fresh := 1\<rparr>) =
     (Inl (LibraryError ''channel/connection is not open''), no_channels\<lparr>fresh := 1\<rparr>) \<and>
   Connection_IsClosed fake_amqp 0 (no_channels\<lparr>fresh := 1\<rparr>) =
     (False, no_channels\<lparr>fresh := 1\<rparr>) \<and>
   fst (GetQueue_amqp fake_amqp (Some jobs) (start no_channels)) =
     Return (None, Some (LibraryError ''channel/connection is not open'')) \<and>
   fst (GetQueue fake_amqp (Some jobs) (start no_channels)) =
     Return (None, Some (LibraryError ''channel/connection is not open'')) \<and>
   amqp_Dial fake_amqp (Host jobs) (world (start no_declare)) =
     (Inr 0, no_declare\<lparr>fresh := 1\<rparr>) \<and>
   Connection_IsClosed fake_amqp 0 (no_declare\<lparr>fresh := 1\<rparr>) =
     (False, no_declare\<lparr>fresh := 1\<rparr>) \<and>
   Connection_Channel fake_amqp 0 (no_declare\<lparr>fresh := 1\<rparr>) =
     (Inr 1, no_declare\<lparr>fresh := 2\<rparr>) \<and>
   Channel_QueueDeclare fake_amqp 1 (RoutingKey jobs) (Durable jobs) (DeleteIfUnused jobs)
     (Exclusive jobs) (NoWait jobs) (arguments jobs) (no_declare\<lparr>fresh := 2\<rparr>) =
     (Inl (LibraryError ''PRECONDITION_FAILED''), no_declare\<lparr>fresh := 2\<rparr>) \<and>
   fst (GetQueue_amqp fake_amqp (Some jobs) (start no_declare)) =
     Return (None, Some (LibraryError ''PRECONDITION_FAILED'')) \<and>
   fst (GetQueue fake_amqp (Some jobs) (start no_declare)) =
     Return (None, Some (LibraryError ''PRECONDITION_FAILED'')) \<and>
   amqp_Dial fake_amqp (Host jobs) (world (start slamming)) = (Inr 0, slamming\<lparr>fresh := 1\<rparr>) \<and>
   Connection_IsClosed fake_amqp 0 (slamming\<lparr>fresh := 1\<rparr>) = (True, slamming\<lparr>fresh := 1\<rparr>) \<and>
   fst (GetQueue fake_amqp (Some jobs) (start slamming)) =
     Return (None, Some (errors_New ''No connection to queue''))"
proof -
  have slam: "GetQueue fake_amqp (Some jobs) (start slamming) =
     (Return (None, Some (errors_New ''No connection to queue'')),
      (start (slamming\<lparr>fresh := 1\<rparr>))
        \<lparr>events := [Dial ''amqp://localhost:5672/'' (Inr 0), IsClosed 0 True]\<rparr>)"
    by (simp add: GetQueue_def connect_def openChannel_def call_defs double_defs)
  have dial: "amqp_Dial fake_amqp (Host jobs) (world (start unreachable)) =
       (Inl (LibraryError ''dial tcp: connection refused''), unreachable)"
    "amqp_Dial fake_amqp (Host jobs) (world (start no_channels)) =
       (Inr 0, no_channels\<lparr>fresh := 1\<rparr>)"
    "amqp_Dial fake_amqp (Host jobs) (world (start no_declare)) =
       (Inr 0, no_declare\<lparr>fresh := 1\<rparr>)"
    "amqp_Dial fake_amqp (Host jobs) (world (start slamming)) = (Inr 0, slamming\<lparr>fresh := 1\<rparr>)"
    by (simp_all add: double_defs)
  have closed: "Connection_IsClosed fake_amqp 0 (no_channels\<lparr>fresh := 1\<rparr>) =
       (False, no_channels\<lparr>fresh := 1\<rparr>)"
    "Connection_IsClosed fake_amqp 0 (no_declare\<lparr>fresh := 1\<rparr>) =
       (False, no_declare\<lparr>fresh := 1\<rparr>)"
    "Connection_IsClosed fake_amqp 0 (slamming\<lparr>fresh := 1\<rparr>) = (True, slamming\<lparr>fresh := 1\<rparr>)"
    by (simp_all add: double_defs)
  have chan: "Connection_Channel fake_amqp 0 (no_channels\<lparr>fresh := 1\<rparr>) =
       (Inl (LibraryError ''channel/connection is not open''), no_channels\<lparr>fresh := 1\<rparr>)"
    "Connection_Channel fake_amqp 0 (no_declare\<lparr>fresh := 1\<rparr>) =
       (Inr 1, no_declare\<lparr>fresh := 2\<rparr>)"
    by (simp_all add: double_defs)
  have decl: "Channel_QueueDeclare fake_amqp 1 (RoutingKey jobs) (Durable jobs)
       (DeleteIfUnused jobs) (Exclusive jobs) (NoWait jobs) (arguments jobs)
       (no_declare\<lparr>fresh := 2\<rparr>) =
     (Inl (LibraryError ''PRECONDITION_FAILED''), no_declare\<lparr>fresh := 2\<rparr>)"
    by (simp add: double_defs)
  note inst = GetQueue_failure
      [where lib = fake_amqp and config = "Some jobs"
         and e = "start unreachable"
         and qa = None and erra = "LibraryError ''dial tcp: connection refused''"
         and ea = "(start unreachable)
             \<lparr>events := [Dial ''amqp://localhost:5672/''
                           (Inl (LibraryError ''dial tcp: connection refused''))]\<rparr>"
         and e' = "start slamming" and qw = None
         and errw = "errors_New ''No connection to queue''"
         and ew = "(start (slamming\<lparr>fresh := 1\<rparr>))
             \<lparr>events := [Dial ''amqp://localhost:5672/'' (Inr 0), IsClosed 0 True]\<rparr>"
         and ?cfg1.0 = jobs and ?e1.0 = "start unreachable"
         and ?err1.0 = "LibraryError ''dial tcp: connection refused''" and ?w1.0 = unreachable
         and ?cfg2.0 = jobs and ?e2.0 = "start no_channels" and ?c2.0 = 0
         and ?w2.0 = "no_channels\<lparr>fresh := 1\<rparr>"
         and ?err2.0 = "LibraryError ''channel/connection is not open''"
         and w2' = "no_channels\<lparr>fresh := 1\<rparr>"
         and ?cfg3.0 = jobs and ?e3.0 = "start no_declare" and ?c3.0 = 0
         and ?w3.0 = "no_declare\<lparr>fresh := 1\<rparr>" and ?ch3.0 = 1
         and w3' = "no_declare\<lparr>fresh := 2\<rparr>"
         and ?err3.0 = "LibraryError ''PRECONDITION_FAILED''"
         and w3'' = "no_declare\<lparr>fresh := 2\<rparr>"
         and ?cfg4.0 = jobs and ?e4.0 = "start slamming" and ?c4.0 = 0
         and ?w4.0 = "slamming\<lparr>fresh := 1\<rparr>" and w4' = "slamming\<lparr>fresh := 1\<rparr>"
         and ?cfg5.0 = jobs and ?e5.0 = "start no_channels" and ?c5.0 = 0
         and ?w5.0 = "no_channels\<lparr>fresh := 1\<rparr>" and w5' = "no_channels\<lparr>fresh := 1\<rparr>"
         and ?err5.0 = "LibraryError ''channel/connection is not open''"
         and w5'' = "no_channels\<lparr>fresh := 1\<rparr>"
         and ?cfg6.0 = jobs and ?e6.0 = "start no_declare" and ?c6.0 = 0
         and ?w6.0 = "no_declare\<lparr>fresh := 1\<rparr>" and w6' = "no_declare\<lparr>fresh := 1\<rparr>"
         and ?ch6.0 = 1 and w6'' = "no_declare\<lparr>fresh := 2\<rparr>"
         and ?err6.0 = "LibraryError ''PRECONDITION_FAILED''"
         and w6''' = "no_declare\<lparr>fresh := 2\<rparr>"]
  show ?thesis
    using inst GetQueue_amqp_unreachable slam dial closed chan decl
    by simp
qed

text \<open>
  A Queue that a constructor returns has its channel handle and the configuration it
  was constructed with, so the precondition of the forwarding property of
  \<open>Publish\<close> holds for it.
\<close>

lemma GetQueue_configured:
  "(GetQueue_amqp lib config e = (Return (Some qa, erra), ea) \<longrightarrow>
      (\<exists>ch cfg. channel qa = Some ch \<and> Config qa = Some cfg \<and> config = Some cfg)) \<and>
   (GetQueue lib config e = (Return (Some qw, errw), ew) \<longrightarrow>
      (\<exists>ch cfg. channel qw = Some ch \<and> Config qw = Some cfg \<and> config = Some cfg))"
proof (intro conjI)
  show "GetQueue_amqp lib config e = (Return (Some qa, erra), ea) \<longrightarrow>
      (\<exists>ch cfg. channel qa = Some ch \<and> Config qa = Some cfg \<and> config = Some cfg)"
    by (auto simp: GetQueue_amqp_def connect_amqp_def openChannel_amqp_def call_defs
        split: case_splits)
  show "GetQueue lib config e = (Return (Some qw, errw), ew) \<longrightarrow>
      (\<exists>ch cfg. channel qw = Some ch \<and> Config qw = Some cfg \<and> config = Some cfg)"
    by (auto simp: GetQueue_def connect_def openChannel_def call_defs split: case_splits if_split)
qed

text \<open>
  C4. In both source files: when \<open>GetQueue\<close> returns without an error, it returns
  a Queue, and that Queue's \<open>Connected\<close> field is true.
\<close>

theorem GetQueue_Connected:
  "(GetQueue_amqp lib config e = (Return (qa, None), ea) \<longrightarrow> (\<exists>q. qa = Some q \<and> Connected q)) \<and>
   (GetQueue lib config e = (Return (qw, None), ew) \<longrightarrow> (\<exists>q. qw = Some q \<and> Connected q))"
proof (intro conjI)
  show "GetQueue_amqp lib config e = (Return (qa, None), ea) \<longrightarrow> (\<exists>q. qa = Some q \<and> Connected q)"
    by (auto simp: GetQueue_amqp_def connect_amqp_def openChannel_amqp_def call_defs
        split: case_splits)
  show "GetQueue lib config e = (Return (qw, None), ew) \<longrightarrow> (\<exists>q. qw = Some q \<and> Connected q)"
    by (auto simp: GetQueue_def connect_def openChannel_def call_defs split: case_splits)
qed

theorem GetQueue_Connected_witness:
  "fst (GetQueue_amqp fake_amqp (Some jobs) (start up)) = Return (Some built_amqp, None) \<and>
   Connected built_amqp \<and>
   fst (GetQueue fake_amqp (Some jobs) (start up)) = Return (Some built, None) \<and>
   Connected built"
  using GetQueue_Connected
    [of fake_amqp "Some jobs" "start up" "Some built_amqp"
        "snd (GetQueue_amqp fake_amqp (Some jobs) (start up))"
        "Some built" "snd (GetQueue fake_amqp (Some jobs) (start up))"]
  by (simp add: GetQueue_amqp_up GetQueue_up)

subsection \<open>Consuming\<close>

text \<open>
  C5. The consumer feed is what the library's \<^verbatim>\<open>Consume\<close> answers with for the
  Queue's channel and the configured parameters. When that answer is a feed carrying
  the deliveries \<open>msgs\<close>, \<open>ProcessIncomingMessages\<close> with a callback returns nil
  and has started one task, on exactly that feed; and when
  \<open>ProcessIncomingMessages\<close> has returned nil, the task it has started is the one
  on the feed the library answered with. Run on any environment, that task returns when
  the feed is closed, and by then it has invoked the callback once for each delivery of
  the feed, in the feed's order: the invocations are the feed's deliveries, one for one,
  and the caller's state is the callback folded over them from the left.
\<close>

theorem ProcessIncomingMessages_in_order:
  "(ProcessIncomingMessages lib ConsumerID (Some cb) q e = (Return None, q', e') \<longrightarrow>
     (\<exists>ch cfg msgs.
        channel q = Some ch \<and> Config q = Some cfg \<and>
        Channel_Consume lib ch (RoutingKey cfg) ConsumerID (AutoAcknowledgeMessages cfg)
          (Exclusive cfg) (NoLocal cfg) (NoWait cfg) (arguments cfg) (world e) =
          (Inr msgs, world e') \<and>
        since e e' =
          [Consume ch (RoutingKey cfg) ConsumerID (AutoAcknowledgeMessages cfg) (Exclusive cfg)
             (NoLocal cfg) (NoWait cfg) (arguments cfg) (Inr msgs),
           Add 1, Go] \<and>
        goroutines e' = goroutines e @ [Goroutine (Some cb) msgs] \<and>
        user e' = user e \<and>
        (\<forall>e1 :: ('w, 'u) env.
           run_goroutine (Goroutine (Some cb) msgs) e1 =
             (Return (),
              e1\<lparr>user := foldl (\<lambda>u d. cb (Message d) u) (user e1) msgs,
                 events := events e1 @ map (\<lambda>d. Callback (Message d)) msgs\<rparr>)))) \<and>
   (channel q2 = Some ch2 \<longrightarrow> Config q2 = Some cfg2 \<longrightarrow> WaitGroup q2 = Some n \<longrightarrow> 0 \<le> n + 1 \<longrightarrow>
    Channel_Consume lib ch2 (RoutingKey cfg2) ConsumerID (AutoAcknowledgeMessages cfg2)
      (Exclusive cfg2) (NoLocal cfg2) (NoWait cfg2) (arguments cfg2) (world e2) =
      (Inr msgs2, w2) \<longrightarrow>
      ProcessIncomingMessages lib ConsumerID (Some cb) q2 e2 =
        (Return None,
         q2\<lparr>WaitGroup := Some (n + 1), worker := Some cb\<rparr>,
         e2\<lparr>world := w2,
            goroutines := goroutines e2 @ [Goroutine (Some cb) msgs2],
            events := events e2 @
              [Consume ch2 (RoutingKey cfg2) ConsumerID (AutoAcknowledgeMessages cfg2)
                 (Exclusive cfg2) (NoLocal cfg2) (NoWait cfg2) (arguments cfg2) (Inr msgs2),
               Add 1, Go]\<rparr>) \<and>
      run_goroutine (Goroutine (Some cb) msgs2) (e3 :: ('w, 'u) env) =
        (Return (),
         e3\<lparr>user := foldl (\<lambda>u d. cb (Message d) u) (user e3) msgs2,
            events := events e3 @ map (\<lambda>d. Callback (Message d)) msgs2\<rparr>))"
proof (intro conjI)
  show "ProcessIncomingMessages lib ConsumerID (Some cb) q e = (Return None, q', e') \<longrightarrow>
     (\<exists>ch cfg msgs.
        channel q = Some ch \<and> Config q = Some cfg \<and>
        Channel_Consume lib ch (RoutingKey cfg) ConsumerID (AutoAcknowledgeMessages cfg)
          (Exclusive cfg) (NoLocal cfg) (NoWait cfg) (arguments cfg) (world e) =
          (Inr msgs, world e') \<and>
        since e e' =
          [Consume ch (RoutingKey cfg) ConsumerID (AutoAcknowledgeMessages cfg) (Exclusive cfg)
             (NoLocal cfg) (NoWait cfg) (arguments cfg) (Inr msgs),
           Add 1, Go] \<and>
        goroutines e' = goroutines e @ [Goroutine (Some cb) msgs] \<and>
        user e' = user e \<and>
        (\<forall>e1 :: ('w, 'u) env.
           run_goroutine (Goroutine (Some cb) msgs) e1 =
             (Return (),
              e1\<lparr>user := foldl (\<lambda>u d. cb (Message d) u) (user e1) msgs,
                 events := events e1 @ map (\<lambda>d. Callback (Message d)) msgs\<rparr>)))"
    by (auto simp: ProcessIncomingMessages_def GetConsumer_def WaitGroup_Add_def go_def call_defs
        since_def range_msgs_Some split: case_splits if_split)
  show "channel q2 = Some ch2 \<longrightarrow> Config q2 = Some cfg2 \<longrightarrow> WaitGroup q2 = Some n \<longrightarrow> 0 \<le> n + 1 \<longrightarrow>
    Channel_Consume lib ch2 (RoutingKey cfg2) ConsumerID (AutoAcknowledgeMessages cfg2)
      (Exclusive cfg2) (NoLocal cfg2) (NoWait cfg2) (arguments cfg2) (world e2) =
      (Inr msgs2, w2) \<longrightarrow>
      ProcessIncomingMessages lib ConsumerID (Some cb) q2 e2 =
        (Return None,
         q2\<lparr>WaitGroup := Some (n + 1), worker := Some cb\<rparr>,
         e2\<lparr>world := w2,
            goroutines := goroutines e2 @ [Goroutine (Some cb) msgs2],
            events := events e2 @
              [Consume ch2 (RoutingKey cfg2) ConsumerID (AutoAcknowledgeMessages cfg2)
                 (Exclusive cfg2) (NoLocal cfg2) (NoWait cfg2) (arguments cfg2) (Inr msgs2),
               Add 1, Go]\<rparr>) \<and>
      run_goroutine (Goroutine (Some cb) msgs2) (e3 :: ('w, 'u) env) =
        (Return (),
         e3\<lparr>user := foldl (\<lambda>u d. cb (Message d) u) (user e3) msgs2,
            events := events e3 @ map (\<lambda>d. Callback (Message d)) msgs2\<rparr>)"
    by (simp add: ProcessIncomingMessages_def GetConsumer_def WaitGroup_Add_def go_def call_defs
        range_msgs_Some)
qed

theorem ProcessIncomingMessages_in_order_witness:
  "channel built = Some 1 \<and> Config built = Some jobs \<and> WaitGroup built = Some 0 \<and>
   Channel_Consume fake_amqp 1 (RoutingKey jobs) ''c1'' (AutoAcknowledgeMessages jobs)
     (Exclusive jobs) (NoLocal jobs) (NoWait jobs) (arguments jobs) (world (start serving)) =
     (Inr [delivery1, delivery2], serving) \<and>
   ProcessIncomingMessages fake_amqp ''c1'' (Some remember) built (start serving) =
     (Return None,
      built\<lparr>WaitGroup := Some 1, worker := Some remember\<rparr>,
      (start serving)
        \<lparr>goroutines := [Goroutine (Some remember) [delivery1, delivery2]],
          events := [Consume 1 ''jobs'' ''c1'' True False False False []
                      (Inr [delivery1, delivery2]), Add 1, Go]\<rparr>) \<and>
   run_goroutine (Goroutine (Some remember) [delivery1, delivery2]) (start serving) =
     (Return (),
      (start serving)
        \<lparr>user := [[104, 105], [33]],
          events := [Callback (Message delivery1), Callback (Message delivery2)]\<rparr>)"
proof -
  have pre: "channel built = Some 1" "Config built = Some jobs" "WaitGroup built = Some 0"
    "(0::int) \<le> 0 + 1"
    by (simp_all add: built_def)
  have feed: "Channel_Consume fake_amqp 1 (RoutingKey jobs) ''c1'' (AutoAcknowledgeMessages jobs)
     (Exclusive jobs) (NoLocal jobs) (NoWait jobs) (arguments jobs) (world (start serving)) =
     (Inr [delivery1, delivery2], serving)"
    by (simp add: fake_amqp_def serving_def up_def start_simps)
  have run: "ProcessIncomingMessages fake_amqp ''c1'' (Some remember) built (start serving) =
     (Return None,
      built\<lparr>WaitGroup := Some 1, worker := Some remember\<rparr>,
      (start serving)
        \<lparr>goroutines := [Goroutine (Some remember) [delivery1, delivery2]],
          events := [Consume 1 ''jobs'' ''c1'' True False False False []
                      (Inr [delivery1, delivery2]), Add 1, Go]\<rparr>)"
    by (rule ProcessIncomingMessages_serving)
  have task: "run_goroutine (Goroutine (Some remember) [delivery1, delivery2]) (start serving) =
     (Return (),
      (start serving)
        \<lparr>user := [[104, 105], [33]],
          events := [Callback (Message delivery1), Callback (Message delivery2)]\<rparr>)"
    by (simp add: emit_def start_def remember_def delivery1_def delivery2_def)
  show ?thesis
    using ProcessIncomingMessages_in_order
        [where lib = fake_amqp and ConsumerID = "''c1''" and cb = remember and q = built
           and e = "start serving"
           and q' = "built\<lparr>WaitGroup := Some 1, worker := Some remember\<rparr>"
           and e' = "(start serving)
                \<lparr>goroutines := [Goroutine (Some remember) [delivery1, delivery2]],
                  events := [Consume 1 ''jobs'' ''c1'' True False False False []
                              (Inr [delivery1, delivery2]), Add 1, Go]\<rparr>"
           and ?q2.0 = built and ?ch2.0 = 1 and ?cfg2.0 = jobs and n = 0
           and ?e2.0 = "start serving" and ?msgs2.0 = "[delivery1, delivery2]"
           and ?w2.0 = serving and ?e3.0 = "start serving"]
      pre feed run task
    by blast
qed

text \<open>
  C6. When \<open>ProcessIncomingMessages\<close> returns nil, the WaitGroup counter is one
  more than it was, and the \<open>Add\<close> comes before the start of the task. No
  \<open>Done\<close> happens in the task, however it ends, nor in \<open>GetQueue\<close>,
  \<open>Publish\<close>, \<open>GetConsumer\<close> or \<open>ProcessIncomingMessages\<close>: the only
  \<open>Done\<close> is the one in \<open>Recover\<close>, which takes one unit off the counter
  when \<open>Recover\<close> returns nil on a Queue with a registered worker.
\<close>

theorem Done_only_in_Recover:
  "(ProcessIncomingMessages lib ConsumerID f q e = (Return None, q1, e1) \<longrightarrow>
      (\<exists>n c. WaitGroup q = Some n \<and> WaitGroup q1 = Some (n + 1) \<and> since e e1 = [c, Add 1, Go])) \<and>
   (run_goroutine g e = (r2, e2) \<longrightarrow> Done \<notin> set (since e e2)) \<and>
   (ProcessIncomingMessages lib ConsumerID f q e = (r3, q3, e3) \<longrightarrow> Done \<notin> set (since e e3)) \<and>
   (GetConsumer lib ConsumerID q e = (r4, q4, e4) \<longrightarrow> Done \<notin> set (since e e4)) \<and>
   (Publish lib message mandatory immediate q e = (r5, q5, e5) \<longrightarrow> Done \<notin> set (since e e5)) \<and>
   (GetQueue lib config e = (r6, e6) \<longrightarrow> Done \<notin> set (since e e6)) \<and>
   (Recover lib q e = (Return None, q7, e7) \<longrightarrow> worker q = Some cb \<longrightarrow>
      (\<exists>n. WaitGroup q = Some n \<and> WaitGroup q7 = Some (n - 1) \<and> Done \<in> set (since e e7)))"
proof (intro conjI)
  show "ProcessIncomingMessages lib ConsumerID f q e = (Return None, q1, e1) \<longrightarrow>
      (\<exists>n c. WaitGroup q = Some n \<and> WaitGroup q1 = Some (n + 1) \<and> since e e1 = [c, Add 1, Go])"
    by (auto simp: ProcessIncomingMessages_def GetConsumer_def WaitGroup_Add_def go_def call_defs
        since_def split: case_splits if_split)
  show "run_goroutine g e = (r2, e2) \<longrightarrow> Done \<notin> set (since e e2)"
    using run_goroutine_no_Done [of e g] by auto
  show "ProcessIncomingMessages lib ConsumerID f q e = (r3, q3, e3) \<longrightarrow> Done \<notin> set (since e e3)"
    by (auto simp: ProcessIncomingMessages_def GetConsumer_def WaitGroup_Add_def go_def call_defs
        since_def split: case_splits if_split)
  show "GetConsumer lib ConsumerID q e = (r4, q4, e4) \<longrightarrow> Done \<notin> set (since e e4)"
    by (auto simp: GetConsumer_def call_defs since_def split: case_splits)
  show "Publish lib message mandatory immediate q e = (r5, q5, e5) \<longrightarrow> Done \<notin> set (since e e5)"
    by (auto simp: Publish_def call_defs since_def split: case_splits)
  show "GetQueue lib config e = (r6, e6) \<longrightarrow> Done \<notin> set (since e e6)"
    by (auto simp: GetQueue_def connect_def openChannel_def call_defs since_def split: case_splits)
  show "Recover lib q e = (Return None, q7, e7) \<longrightarrow> worker q = Some cb \<longrightarrow>
      (\<exists>n. WaitGroup q = Some n \<and> WaitGroup q7 = Some (n - 1) \<and> Done \<in> set (since e e7))"
    by (auto simp: Recover_def connect_def call_defs since_def split: case_splits if_split
        dest!: Recover_reopen_with_worker [rule_format, rotated])
qed

theorem Done_only_in_Recover_witness:
  "ProcessIncomingMessages fake_amqp ''c1'' (Some remember) built (start serving) =
     (Return None,
      built\<lparr>WaitGroup := Some 1, worker := Some remember\<rparr>,
      (start serving)
        \<lparr>goroutines := [Goroutine (Some remember) [delivery1, delivery2]],
          events := [Consume 1 ''jobs'' ''c1'' True False False False []
                      (Inr [delivery1, delivery2]), Add 1, Go]\<rparr>) \<and>
   WaitGroup built = Some 0 \<and>
   WaitGroup (built\<lparr>WaitGroup := Some 1, worker := Some remember\<rparr>) = Some (0 + 1) \<and>
   Done \<notin> set (since (start serving)
                   (snd (run_goroutine (Goroutine (Some remember) [delivery1, delivery2])
                           (start serving)))) \<and>
   Recover fake_amqp (built\<lparr>WaitGroup := Some 1, worker := Some remember\<rparr>) (start serving) =
     (Return None,
      built\<lparr>WaitGroup := Some 0, worker := Some remember, connection := Some 2,
             channel := Some 3\<rparr>,
      (start (serving\<lparr>fresh := 4\<rparr>))
        \<lparr>events := [IsClosed 0 False, Println ''Connection was closed'',
                    Dial ''amqp://localhost:5672/'' (Inr 2), IsClosed 2 False, Channel 2 (Inr 3),
                    QueueDeclare 3 ''jobs'' True False False False []
                      (Inr \<lparr>Name = ''jobs'', Messages = 0, Consumers = 0\<rparr>),
                    Done]\<rparr>) \<and>
   Done \<in> set (since (start serving)
                  ((start (serving\<lparr>fresh := 4\<rparr>))
                     \<lparr>events := [IsClosed 0 False, Println ''Connection was closed'',
                                 Dial ''amqp://localhost:5672/'' (Inr 2), IsClosed 2 False,
                                 Channel 2 (Inr 3),
                                 QueueDeclare 3 ''jobs'' True False False False []
                                   (Inr \<lparr>Name = ''jobs'', Messages = 0, Consumers = 0\<rparr>),
                                 Done]\<rparr>))"
proof -
  have run: "ProcessIncomingMessages fake_amqp ''c1'' (Some remember) built (start serving) =
     (Return None,
      built\<lparr>WaitGroup := Some 1, worker := Some remember\<rparr>,
      (start serving)
        \<lparr>goroutines := [Goroutine (Some remember) [delivery1, delivery2]],
          events := [Consume 1 ''jobs'' ''c1'' True False False False []
                      (Inr [delivery1, delivery2]), Add 1, Go]\<rparr>)"
    by (rule ProcessIncomingMessages_serving)
  have rec: "Recover fake_amqp (built\<lparr>WaitGroup := Some 1, worker := Some remember\<rparr>)
               (start serving) =
     (Return None,
      built\<lparr>WaitGroup := Some 0, worker := Some remember, connection := Some 2,
             channel := Some 3\<rparr>,
      (start (serving\<lparr>fresh := 4\<rparr>))
        \<lparr>events := [IsClosed 0 False, Println ''Connection was closed'',
                    Dial ''amqp://localhost:5672/'' (Inr 2), IsClosed 2 False, Channel 2 (Inr 3),
                    QueueDeclare 3 ''jobs'' True False False False []
                      (Inr \<lparr>Name = ''jobs'', Messages = 0, Consumers = 0\<rparr>),
                    Done]\<rparr>)"
    by (simp add: Recover_def Recover_reopen_def connect_def openChannel_def WaitGroup_Done_def
        call_defs double_defs)
  have wg: "WaitGroup built = Some 0"
    "WaitGroup (built\<lparr>WaitGroup := Some 1, worker := Some remember\<rparr>) = Some (0 + 1)"
    "worker (built\<lparr>WaitGroup := Some 1, worker := Some remember\<rparr>) = Some remember"
    by (simp_all add: built_def)
  have task: "run_goroutine (Goroutine (Some remember) [delivery1, delivery2]) (start serving) =
      (fst (run_goroutine (Goroutine (Some remember) [delivery1, delivery2]) (start serving)),
       snd (run_goroutine (Goroutine (Some remember) [delivery1, delivery2]) (start serving)))"
    by simp
  have quiet: "Done \<notin> set (since (start serving)
                   (snd (run_goroutine (Goroutine (Some remember) [delivery1, delivery2])
                           (start serving))))"
    using Done_only_in_Recover
        [of fake_amqp "''c1''" "Some remember" built "start serving"
            "built\<lparr>WaitGroup := Some 1, worker := Some remember\<rparr>"
            "(start serving)
               \<lparr>goroutines := [Goroutine (Some remember) [delivery1, delivery2]],
                 events := [Consume 1 ''jobs'' ''c1'' True False False False []
                             (Inr [delivery1, delivery2]), Add 1, Go]\<rparr>"
            "Goroutine (Some remember) [delivery1, delivery2]"
            "fst (run_goroutine (Goroutine (Some remember) [delivery1, delivery2]) (start serving))"
            "snd (run_goroutine (Goroutine (Some remember) [delivery1, delivery2]) (start serving))"]
      task
    by blast
  have released: "Done \<in> set (since (start serving)
                  ((start (serving\<lparr>fresh := 4\<rparr>))
                     \<lparr>events := [IsClosed 0 False, Println ''Connection was closed'',
                                 Dial ''amqp://localhost:5672/'' (Inr 2), IsClosed 2 False,
                                 Channel 2 (Inr 3),
                                 QueueDeclare 3 ''jobs'' True False False False []
                                   (Inr \<lparr>Name = ''jobs'', Messages = 0, Consumers = 0\<rparr>),
                                 Done]\<rparr>))"
    by (simp add: since_def start_simps)
  show ?thesis
    using run rec wg quiet released by simp
qed

subsection \<open>Recovery\<close>

text \<open>
  C10. On a Queue whose \<open>worker\<close> is nil, \<open>Recover\<close> leaves the WaitGroup
  counter as it was and performs no \<open>Done\<close>, however it ends, and so in particular
  when it returns nil.
\<close>

theorem Recover_without_worker:
  "worker q = None \<longrightarrow> Recover lib q e = (r, q', e') \<longrightarrow>
     WaitGroup q' = WaitGroup q \<and> Done \<notin> set (since e e')"
  by (auto simp: Recover_def connect_def call_defs since_def split: case_splits if_split
      dest!: Recover_reopen_without_worker [rule_format, rotated])

theorem Recover_without_worker_witness:
  "worker built = None \<and>
   Recover fake_amqp built (start serving) =
     (Return None,
      built\<lparr>connection := Some 2, channel := Some 3\<rparr>,
      (start (serving\<lparr>fresh := 4\<rparr>))
        \<lparr>events := [IsClosed 0 False, Println ''Connection was closed'',
                    Dial ''amqp://localhost:5672/'' (Inr 2), IsClosed 2 False, Channel 2 (Inr 3),
                    QueueDeclare 3 ''jobs'' True False False False []
                      (Inr \<lparr>Name = ''jobs'', Messages = 0, Consumers = 0\<rparr>)]\<rparr>) \<and>
   WaitGroup (built\<lparr>connection := Some 2, channel := Some 3\<rparr>) = WaitGroup built \<and>
   Done \<notin> set (since (start serving)
                   ((start (serving\<lparr>fresh := 4\<rparr>))
                      \<lparr>events := [IsClosed 0 False, Println ''Connection was closed'',
                                  Dial ''amqp://localhost:5672/'' (Inr 2), IsClosed 2 False,
                                  Channel 2 (Inr 3),
                                  QueueDeclare 3 ''jobs'' True False False False []
                                    (Inr \<lparr>Name = ''jobs'', Messages = 0, Consumers = 0\<rparr>)]\<rparr>))"
proof -
  have nil: "worker built = None"
    by (simp add: built_def)
  show ?thesis
    using Recover_without_worker
        [of built fake_amqp "start serving" "Return None"
            "built\<lparr>connection := Some 2, channel := Some 3\<rparr>"
            "(start (serving\<lparr>fresh := 4\<rparr>))
               \<lparr>events := [IsClosed 0 False, Println ''Connection was closed'',
                           Dial ''amqp://localhost:5672/'' (Inr 2), IsClosed 2 False,
                           Channel 2 (Inr 3),
                           QueueDeclare 3 ''jobs'' True False False False []
                             (Inr \<lparr>Name = ''jobs'', Messages = 0, Consumers = 0\<rparr>)]\<rparr>"]
      nil Recover_serving
    by blast
qed

text \<open>
  C1. The claim is that \<open>Recover\<close> dials again when, and only when, the connection
  is closed. The source tests \<^verbatim>\<open>!q.connection.IsClosed()\<close>, so it does the
  opposite. On the Queue constructed against the double: once the broker has closed the
  connection, \<open>Recover\<close> makes no dial, asks twice whether the connection is closed,
  and returns "No connection to queue"; while the connection is open, \<open>Recover\<close>
  logs "Connection was closed" and dials.
\<close>

theorem Recover_dials_when_open:
  "Recover fake_amqp built (start dropped) =
     (Return (Some (errors_New ''No connection to queue'')),
      built,
      (start dropped)
        \<lparr>events := [IsClosed 0 True, IsClosed 0 True, Println ''Error reopening channel'']\<rparr>) \<and>
   filter is_Dial
     (since (start dropped) (snd (snd (Recover fake_amqp built (start dropped))))) = [] \<and>
   filter is_Dial
     (since (start serving) (snd (snd (Recover fake_amqp built (start serving))))) =
     [Dial ''amqp://localhost:5672/'' (Inr 2)]"
  by (simp add: Recover_dropped Recover_serving since_def start_simps)

text \<open>
  The same for every Queue and every library: when the library answers that the
  connection is closed, \<open>Recover\<close> makes no dial.
\<close>

lemma Recover_closed_connection:
  "connection q = Some c \<longrightarrow> Connection_IsClosed lib c (world e) = (True, w) \<longrightarrow>
   Recover lib q e = (r, q', e') \<longrightarrow> filter is_Dial (since e e') = []"
  by (auto simp: Recover_def call_defs since_def split: case_splits if_split
      dest!: Recover_reopen_no_Dial [rule_format])

subsection \<open>Which errors the package returns\<close>

lemma last_library_call_Cons:
  "last_library_call evs = Some x \<Longrightarrow> last_library_call (ev # evs) = Some x"
  by (cases "filter is_library_call (rev evs)") (simp_all add: last_library_call_def)

lemma Recover_reopen_failure:
  "Recover_reopen lib q e = (Return (Some err), q', e') \<longrightarrow> connection q = Some c \<longrightarrow>
     (\<exists>evs. events e' = events e @ evs \<and> replay lib evs (world e) = Some (world e') \<and>
        (err = errors_New ''No connection to queue'' \<and>
         last_library_call evs = Some (IsClosed c True) \<or>
         last_library_error evs = Some err))"
  by (auto simp: Recover_reopen_def openChannel_def WaitGroup_Done_def call_defs Let_def
      last_library_error_def last_library_call_def split: case_splits if_split)

text \<open>
  C8, as it is claimed: in \<^verbatim>\<open>src/amqp.go\<close>, \<open>connect\<close> on a connected Queue
  returns a local error without dialling, and every other failure of the package is an
  error of the library, passed through. The second half fails in the other source
  file. Take the Queue that \<open>GetQueue\<close> returns against the double, and let the
  broker close its connection: \<open>Recover\<close> returns "No connection to queue", which
  is neither the error of \<open>connect\<close> nor the one of \<open>Publish\<close>, and the library
  calls of the run, which are the library's real answers, returned no error.
\<close>

theorem Recover_local_error:
  "fst (GetQueue fake_amqp (Some jobs) (start up)) = Return (Some built, None) \<and>
   Recover fake_amqp built (start dropped) =
     (Return (Some (errors_New ''No connection to queue'')), built,
      (start dropped)
        \<lparr>events := [IsClosed 0 True, IsClosed 0 True, Println ''Error reopening channel'']\<rparr>) \<and>
   replay fake_amqp [IsClosed 0 True, IsClosed 0 True, Println ''Error reopening channel'']
     dropped = Some dropped \<and>
   map library_error [IsClosed 0 True, IsClosed 0 True, Println ''Error reopening channel''] =
     [None, None, None] \<and>
   errors_New ''No connection to queue'' \<noteq> errors_New ''Error: Queue is already connected'' \<and>
   errors_New ''No connection to queue'' \<noteq> errors_New ''Queue has not been initialized''"
  by (simp add: GetQueue_up Recover_dropped) (simp add: double_defs)

text \<open>
  C8, amended. In \<^verbatim>\<open>src/amqp.go\<close>, \<open>connect\<close> on a Queue whose
  \<open>Connected\<close> flag is true returns the local error "Error: Queue is already
  connected" and changes nothing: no dial, the same Queue. Every error the package
  returns, in either source file, comes from a run whose events are the library's real
  answers, and is one of these: that error of \<open>connect\<close>, returned on a connected
  Queue without a library call; "Queue has not been initialized", returned by
  \<open>Publish\<close> on a nil channel without a library call; "No connection to queue",
  returned by \<open>openChannel\<close> on a nil connection handle without a library call or,
  in the other file, by \<open>openChannel\<close>, \<open>GetQueue\<close> and \<open>Recover\<close> when the
  latest library call was the question whether the connection is closed and the answer
  was yes (in \<open>GetQueue\<close>, right after the successful dial); or the error that the
  latest library call of the run answered with, unchanged.
\<close>

theorem local_or_library_errors:
  "(Connected q1 \<longrightarrow>
      connect_amqp lib host q1 e1 =
        (Return (Some (errors_New ''Error: Queue is already connected'')), q1, e1)) \<and>
   (connect_amqp lib host q2 e2 = (Return (Some err2), q2', e2') \<longrightarrow>
      replay lib (since e2 e2') (world e2) = Some (world e2') \<and>
      (Connected q2 \<and> err2 = errors_New ''Error: Queue is already connected'' \<and>
       since e2 e2' = [] \<or>
       last_library_error (since e2 e2') = Some err2)) \<and>
   (openChannel_amqp lib q3 e3 = (Return (Some err3), q3', e3') \<longrightarrow>
      replay lib (since e3 e3') (world e3) = Some (world e3') \<and>
      (connection q3 = None \<and> err3 = errors_New ''No connection to queue'' \<and>
       since e3 e3' = [] \<or>
       last_library_error (since e3 e3') = Some err3)) \<and>
   (GetQueue_amqp lib config e4 = (Return (q4, Some err4), e4') \<longrightarrow>
      replay lib (since e4 e4') (world e4) = Some (world e4') \<and>
      last_library_error (since e4 e4') = Some err4) \<and>
   (Publish lib message mandatory immediate q5 e5 = (Return (Some err5), q5', e5') \<longrightarrow>
      replay lib (since e5 e5') (world e5) = Some (world e5') \<and>
      (channel q5 = None \<and> err5 = errors_New ''Queue has not been initialized'' \<and>
       since e5 e5' = [] \<or>
       last_library_error (since e5 e5') = Some err5)) \<and>
   (GetConsumer lib ConsumerID q6 e6 = (Return (Inl err6), q6', e6') \<longrightarrow>
      replay lib (since e6 e6') (world e6) = Some (world e6') \<and>
      last_library_error (since e6 e6') = Some err6) \<and>
   (ProcessIncomingMessages_amqp lib ConsumerID f q7 e7 = (Return (Some err7), q7', e7') \<longrightarrow>
      replay lib (since e7 e7') (world e7) = Some (world e7') \<and>
      last_library_error (since e7 e7') = Some err7) \<and>
   (connect lib host q8 e8 = (Return (Some err8), q8', e8') \<longrightarrow>
      replay lib (since e8 e8') (world e8) = Some (world e8') \<and>
      last_library_error (since e8 e8') = Some err8) \<and>
   (openChannel lib q9 e9 = (Return (Some err9), q9', e9') \<longrightarrow>
      replay lib (since e9 e9') (world e9) = Some (world e9') \<and>
      (err9 = errors_New ''No connection to queue'' \<and>
       (connection q9 = None \<and> since e9 e9' = [] \<or>
        (\<exists>c. connection q9 = Some c \<and> since e9 e9' = [IsClosed c True])) \<or>
       last_library_error (since e9 e9') = Some err9)) \<and>
   (GetQueue lib config e10 = (Return (q10, Some err10), e10') \<longrightarrow>
      replay lib (since e10 e10') (world e10) = Some (world e10') \<and>
      (err10 = errors_New ''No connection to queue'' \<and>
       (\<exists>cfg c. config = Some cfg \<and>
          since e10 e10' = [Dial (Host cfg) (Inr c), IsClosed c True]) \<or>
       last_library_error (since e10 e10') = Some err10)) \<and>
   (ProcessIncomingMessages lib ConsumerID f q11 e11 = (Return (Some err11), q11', e11') \<longrightarrow>
      replay lib (since e11 e11') (world e11) = Some (world e11') \<and>
      last_library_error (since e11 e11') = Some err11) \<and>
   (Recover lib q12 e12 = (Return (Some err12), q12', e12') \<longrightarrow>
      replay lib (since e12 e12') (world e12) = Some (world e12') \<and>
      (err12 = errors_New ''No connection to queue'' \<and>
       (\<exists>c. last_library_call (since e12 e12') = Some (IsClosed c True)) \<or>
       last_library_error (since e12 e12') = Some err12))"
proof (intro conjI)
  show "Connected q1 \<longrightarrow>
      connect_amqp lib host q1 e1 =
        (Return (Some (errors_New ''Error: Queue is already connected'')), q1, e1)"
    by (simp add: connect_amqp_def)
  show "connect_amqp lib host q2 e2 = (Return (Some err2), q2', e2') \<longrightarrow>
      replay lib (since e2 e2') (world e2) = Some (world e2') \<and>
      (Connected q2 \<and> err2 = errors_New ''Error: Queue is already connected'' \<and>
       since e2 e2' = [] \<or>
       last_library_error (since e2 e2') = Some err2)"
    by (auto simp: connect_amqp_def call_defs since_def last_library_error_def
        split: case_splits if_split)
  show "openChannel_amqp lib q3 e3 = (Return (Some err3), q3', e3') \<longrightarrow>
      replay lib (since e3 e3') (world e3) = Some (world e3') \<and>
      (connection q3 = None \<and> err3 = errors_New ''No connection to queue'' \<and>
       since e3 e3' = [] \<or>
       last_library_error (since e3 e3') = Some err3)"
    by (auto simp: openChannel_amqp_def call_defs since_def last_library_error_def
        split: case_splits)
  show "GetQueue_amqp lib config e4 = (Return (q4, Some err4), e4') \<longrightarrow>
      replay lib (since e4 e4') (world e4) = Some (world e4') \<and>
      last_library_error (since e4 e4') = Some err4"
    by (auto simp: GetQueue_amqp_def connect_amqp_def openChannel_amqp_def call_defs since_def
        last_library_error_def split: case_splits)
  show "Publish lib message mandatory immediate q5 e5 = (Return (Some err5), q5', e5') \<longrightarrow>
      replay lib (since e5 e5') (world e5) = Some (world e5') \<and>
      (channel q5 = None \<and> err5 = errors_New ''Queue has not been initialized'' \<and>
       since e5 e5' = [] \<or>
       last_library_error (since e5 e5') = Some err5)"
    by (auto simp: Publish_def call_defs since_def last_library_error_def split: case_splits)
  show "GetConsumer lib ConsumerID q6 e6 = (Return (Inl err6), q6', e6') \<longrightarrow>
      replay lib (since e6 e6') (world e6) = Some (world e6') \<and>
      last_library_error (since e6 e6') = Some err6"
    by (auto simp: GetConsumer_def call_defs since_def last_library_error_def split: case_splits)
  show "ProcessIncomingMessages_amqp lib ConsumerID f q7 e7 = (Return (Some err7), q7', e7') \<longrightarrow>
      replay lib (since e7 e7') (world e7) = Some (world e7') \<and>
      last_library_error (since e7 e7') = Some err7"
    by (auto simp: ProcessIncomingMessages_amqp_def GetConsumer_def WaitGroup_Add_def call_defs
        since_def last_library_error_def split: case_splits if_split)
  show "connect lib host q8 e8 = (Return (Some err8), q8', e8') \<longrightarrow>
      replay lib (since e8 e8') (world e8) = Some (world e8') \<and>
      last_library_error (since e8 e8') = Some err8"
    by (auto simp: connect_def call_defs since_def last_library_error_def split: case_splits)
  show "openChannel lib q9 e9 = (Return (Some err9), q9', e9') \<longrightarrow>
      replay lib (since e9 e9') (world e9) = Some (world e9') \<and>
      (err9 = errors_New ''No connection to queue'' \<and>
       (connection q9 = None \<and> since e9 e9' = [] \<or>
        (\<exists>c. connection q9 = Some c \<and> since e9 e9' = [IsClosed c True])) \<or>
       last_library_error (since e9 e9') = Some err9)"
    by (auto simp: openChannel_def call_defs since_def last_library_error_def
        split: case_splits if_split)
  show "GetQueue lib config e10 = (Return (q10, Some err10), e10') \<longrightarrow>
      replay lib (since e10 e10') (world e10) = Some (world e10') \<and>
      (err10 = errors_New ''No connection to queue'' \<and>
       (\<exists>cfg c. config = Some cfg \<and>
          since e10 e10' = [Dial (Host cfg) (Inr c), IsClosed c True]) \<or>
       last_library_error (since e10 e10') = Some err10)"
    by (auto simp: GetQueue_def connect_def openChannel_def call_defs since_def
        last_library_error_def last_library_call_def split: case_splits if_split)
  show "ProcessIncomingMessages lib ConsumerID f q11 e11 = (Return (Some err11), q11', e11') \<longrightarrow>
      replay lib (since e11 e11') (world e11) = Some (world e11') \<and>
      last_library_error (since e11 e11') = Some err11"
    by (auto simp: ProcessIncomingMessages_def GetConsumer_def WaitGroup_Add_def call_defs
        since_def last_library_error_def split: case_splits if_split)
  show "Recover lib q12 e12 = (Return (Some err12), q12', e12') \<longrightarrow>
      replay lib (since e12 e12') (world e12) = Some (world e12') \<and>
      (err12 = errors_New ''No connection to queue'' \<and>
       (\<exists>c. last_library_call (since e12 e12') = Some (IsClosed c True)) \<or>
       last_library_error (since e12 e12') = Some err12)"
    by (auto simp: Recover_def connect_def call_defs since_def last_library_error_Cons
        last_library_call_Cons split: case_splits if_split
        dest!: Recover_reopen_failure [rule_format])
       (simp_all add: last_library_error_def)
qed

theorem local_or_library_errors_witness:
  "Connected built_amqp \<and>
   connect_amqp fake_amqp ''amqp://localhost:5672/'' built_amqp (start serving) =
     (Return (Some (errors_New ''Error: Queue is already connected'')), built_amqp,
      start serving) \<and>
   connection zero_Queue = None \<and>
   openChannel_amqp fake_amqp zero_Queue (start up) =
     (Return (Some (errors_New ''No connection to queue'')), zero_Queue, start up) \<and>
   GetQueue_amqp fake_amqp (Some jobs) (start unreachable) =
     (Return (None, Some (LibraryError ''dial tcp: connection refused'')),
      (start unreachable)
        \<lparr>events := [Dial ''amqp://localhost:5672/''
                      (Inl (LibraryError ''dial tcp: connection refused''))]\<rparr>) \<and>
   channel zero_Queue = None \<and>
   Publish fake_amqp [104, 105] False False zero_Queue (start up) =
     (Return (Some (errors_New ''Queue has not been initialized'')), zero_Queue, start up) \<and>
   GetConsumer fake_amqp ''c1'' built_amqp (start deaf) =
     (Return (Inl (LibraryError ''NOT_FOUND'')), built_amqp,
      (start deaf)
        \<lparr>events := [Consume 1 ''jobs'' ''c1'' True False False False []
                      (Inl (LibraryError ''NOT_FOUND''))]\<rparr>) \<and>
   ProcessIncomingMessages_amqp fake_amqp ''c1'' (Some remember) built_amqp (start deaf) =
     (Return (Some (LibraryError ''NOT_FOUND'')), built_amqp,
      (start deaf)
        \<lparr>events := [Consume 1 ''jobs'' ''c1'' True False False False []
                      (Inl (LibraryError ''NOT_FOUND''))]\<rparr>) \<and>
   connect fake_amqp ''amqp://localhost:5672/'' built (start unreachable) =
     (Return (Some (LibraryError ''dial tcp: connection refused'')), built,
      (start unreachable)
        \<lparr>events := [Dial ''amqp://localhost:5672/''
                      (Inl (LibraryError ''dial tcp: connection refused''))]\<rparr>) \<and>
   openChannel fake_amqp built (start dropped) =
     (Return (Some (errors_New ''No connection to queue'')), built,
      (start dropped)\<lparr>events := [IsClosed 0 True]\<rparr>) \<and>
   GetQueue fake_amqp (Some jobs) (start unreachable) =
     (Return (None, Some (LibraryError ''dial tcp: connection refused'')),
      (start unreachable)
        \<lparr>events := [Dial ''amqp://localhost:5672/''
                      (Inl (LibraryError ''dial tcp: connection refused''))]\<rparr>) \<and>
   ProcessIncomingMessages fake_amqp ''c1'' (Some remember) built (start deaf) =
     (Return (Some (LibraryError ''NOT_FOUND'')), built,
      (start deaf)
        \<lparr>events := [Consume 1 ''jobs'' ''c1'' True False False False []
                      (Inl (LibraryError ''NOT_FOUND''))]\<rparr>) \<and>
   Recover fake_amqp built (start dropped) =
     (Return (Some (errors_New ''No connection to queue'')), built,
      (start dropped)
        \<lparr>events := [IsClosed 0 True, IsClosed 0 True, Println ''Error reopening channel'']\<rparr>) \<and>
   last_library_error
     (since (start unreachable)
        ((start unreachable)
           \<lparr>events := [Dial ''amqp://localhost:5672/''
                         (Inl (LibraryError ''dial tcp: connection refused''))]\<rparr>)) =
     Some (LibraryError ''dial tcp: connection refused'') \<and>
   last_library_error
     (since (start deaf)
        ((start deaf)
           \<lparr>events := [Consume 1 ''jobs'' ''c1'' True False False False []
                         (Inl (LibraryError ''NOT_FOUND''))]\<rparr>)) =
     Some (LibraryError ''NOT_FOUND'')"
proof -
  have flags: "Connected built_amqp" "connection zero_Queue = None" "channel zero_Queue = None"
    by (simp_all add: built_amqp_def zero_Queue_def)
  have c1: "connect_amqp fake_amqp ''amqp://localhost:5672/'' built_amqp (start serving) =
     (Return (Some (errors_New ''Error: Queue is already connected'')), built_amqp,
      start serving)"
    by (simp add: connect_amqp_def built_amqp_def)
  have c3: "openChannel_amqp fake_amqp zero_Queue (start up) =
     (Return (Some (errors_New ''No connection to queue'')), zero_Queue, start up)"
    by (simp add: openChannel_amqp_def zero_Queue_def)
  have c5: "Publish fake_amqp [104, 105] False False zero_Queue (start up) =
     (Return (Some (errors_New ''Queue has not been initialized'')), zero_Queue, start up)"
    by (simp add: Publish_def zero_Queue_def)
  have c6: "GetConsumer fake_amqp ''c1'' built_amqp (start deaf) =
     (Return (Inl (LibraryError ''NOT_FOUND'')), built_amqp,
      (start deaf)
        \<lparr>events := [Consume 1 ''jobs'' ''c1'' True False False False []
                      (Inl (LibraryError ''NOT_FOUND''))]\<rparr>)"
    by (simp add: GetConsumer_def call_defs double_defs)
  have c7: "ProcessIncomingMessages_amqp fake_amqp ''c1'' (Some remember) built_amqp (start deaf) =
     (Return (Some (LibraryError ''NOT_FOUND'')), built_amqp,
      (start deaf)
        \<lparr>events := [Consume 1 ''jobs'' ''c1'' True False False False []
                      (Inl (LibraryError ''NOT_FOUND''))]\<rparr>)"
    by (simp add: ProcessIncomingMessages_amqp_def c6)
  have c8: "connect fake_amqp ''amqp://localhost:5672/'' built (start unreachable) =
     (Return (Some (LibraryError ''dial tcp: connection refused'')), built,
      (start unreachable)
        \<lparr>events := [Dial ''amqp://localhost:5672/''
                      (Inl (LibraryError ''dial tcp: connection refused''))]\<rparr>)"
    by (simp add: connect_def call_defs double_defs)
  have c9: "openChannel fake_amqp built (start dropped) =
     (Return (Some (errors_New ''No connection to queue'')), built,
      (start dropped)\<lparr>events := [IsClosed 0 True]\<rparr>)"
    by (simp add: openChannel_def call_defs double_defs)
  have c11: "ProcessIncomingMessages fake_amqp ''c1'' (Some remember) built (start deaf) =
     (Return (Some (LibraryError ''NOT_FOUND'')), built,
      (start deaf)
        \<lparr>events := [Consume 1 ''jobs'' ''c1'' True False False False []
                      (Inl (LibraryError ''NOT_FOUND''))]\<rparr>)"
    by (simp add: ProcessIncomingMessages_def GetConsumer_def call_defs double_defs)
  have passed: "last_library_error
     (since (start unreachable)
        ((start unreachable)
           \<lparr>events := [Dial ''amqp://localhost:5672/''
                         (Inl (LibraryError ''dial tcp: connection refused''))]\<rparr>)) =
     Some (LibraryError ''dial tcp: connection refused'')"
    "last_library_error
     (since (start deaf)
        ((start deaf)
           \<lparr>events := [Consume 1 ''jobs'' ''c1'' True False False False []
                         (Inl (LibraryError ''NOT_FOUND''))]\<rparr>)) =
     Some (LibraryError ''NOT_FOUND'')"
    by (simp_all add: since_def start_simps last_library_error_def)
  show ?thesis
    using local_or_library_errors
        [where lib = fake_amqp and host = "''amqp://localhost:5672/''" and config = "Some jobs"
           and ConsumerID = "''c1''" and f = "Some remember" and message = "[104, 105]"
           and mandatory = False and immediate = False
           and ?q1.0 = built_amqp and ?e1.0 = "start serving"
           and ?q2.0 = built_amqp and ?e2.0 = "start serving"
           and ?err2.0 = "errors_New ''Error: Queue is already connected''"
           and q2' = built_amqp and e2' = "start serving"
           and ?q3.0 = zero_Queue and ?e3.0 = "start up"
           and ?err3.0 = "errors_New ''No connection to queue''"
           and q3' = zero_Queue and e3' = "start up"
           and ?e4.0 = "start unreachable" and ?q4.0 = None
           and ?err4.0 = "LibraryError ''dial tcp: connection refused''"
           and e4' = "(start unreachable)
             \<lparr>events := [Dial ''amqp://localhost:5672/''
                           (Inl (LibraryError ''dial tcp: connection refused''))]\<rparr>"
           and ?q5.0 = zero_Queue and ?e5.0 = "start up"
           and ?err5.0 = "errors_New ''Queue has not been initialized''"
           and q5' = zero_Queue and e5' = "start up"
           and ?q6.0 = built_amqp and ?e6.0 = "start deaf"
           and ?err6.0 = "LibraryError ''NOT_FOUND''" and q6' = built_amqp
           and e6' = "(start deaf)
             \<lparr>events := [Consume 1 ''jobs'' ''c1'' True False False False []
                           (Inl (LibraryError ''NOT_FOUND''))]\<rparr>"
           and ?q7.0 = built_amqp and ?e7.0 = "start deaf"
           and ?err7.0 = "LibraryError ''NOT_FOUND''" and q7' = built_amqp
           and e7' = "(start deaf)
             \<lparr>events := [Consume 1 ''jobs'' ''c1'' True False False False []
                           (Inl (LibraryError ''NOT_FOUND''))]\<rparr>"
           and ?q8.0 = built and ?e8.0 = "start unreachable"
           and ?err8.0 = "LibraryError ''dial tcp: connection refused''" and q8' = built
           and e8' = "(start unreachable)
             \<lparr>events := [Dial ''amqp://localhost:5672/''
                           (Inl (LibraryError ''dial tcp: connection refused''))]\<rparr>"
           and ?q9.0 = built and ?e9.0 = "start dropped"
           and ?err9.0 = "errors_New ''No connection to queue''" and q9' = built
           and e9' = "(start dropped)\<lparr>events := [IsClosed 0 True]\<rparr>"
           and ?e10.0 = "start unreachable" and ?q10.0 = None
           and ?err10.0 = "LibraryError ''dial tcp: connection refused''"
           and e10' = "(start unreachable)
             \<lparr>events := [Dial ''amqp://localhost:5672/''
                           (Inl (LibraryError ''dial tcp: connection refused''))]\<rparr>"
           and ?q11.0 = built and ?e11.0 = "start deaf"
           and ?err11.0 = "LibraryError ''NOT_FOUND''" and q11' = built
           and e11' = "(start deaf)
             \<lparr>events := [Consume 1 ''jobs'' ''c1'' True False False False []
                           (Inl (LibraryError ''NOT_FOUND''))]\<rparr>"
           and ?q12.0 = built and ?e12.0 = "start dropped"
           and ?err12.0 = "errors_New ''No connection to queue''" and q12' = built
           and e12' = "(start dropped)
             \<lparr>events := [IsClosed 0 True, IsClosed 0 True,
                         Println ''Error reopening channel'']\<rparr>"]
      flags c1 c3 GetQueue_amqp_unreachable c5 c6 c7 c8 c9 GetQueue_unreachable c11
      Recover_dropped passed
    by blast
qed

end
